theory Spec2Isabelle
  imports Main "HOL-Library.AList" "HOL-Library.Char_ord" "HOL-Library.List_Lexorder"
begin

section \<open>Data model\<close>

text \<open>
  One vault of the sync server: its working directory, the git repository inside it and
  the SQLite identity store (\<open>metadata.ts\<close>). Commit identifiers and file identifiers
  are opaque to the code; here a commit identifier is the number of commit objects that
  existed when the commit was written, and a file identifier is drawn from a counter
  (\<open>uuidv4\<close> never repeats). A JavaScript value that is \<open>null\<close>, \<open>undefined\<close> or
  the empty string is \<open>None\<close> wherever the code only tests its truthiness.
\<close>

type_synonym path = string
type_synonym hash = string
type_synonym commit_id = nat
type_synonym file_id = nat

text \<open>\<open>FileMetadata\<close>: a row of table \<open>files\<close>.\<close>

record FileMetadata =
  file_id :: file_id
  vault_id :: string
  current_path :: path
  content_hash :: "hash option"
  git_commit :: "commit_id option"
  created_at :: nat
  updated_at :: nat
  deleted_at :: "nat option"

text \<open>\<open>PathHistoryEntry\<close>: a row of table \<open>path_history\<close>.\<close>

record PathHistoryEntry =
  ph_file_id :: file_id
  old_path :: path
  new_path :: path
  changed_at :: nat

text \<open>\<open>GitManifest\<close>: the document written to \<open>.scion/manifest.json\<close>.\<close>

record GitManifest =
  version :: nat
  m_vault_id :: string
  m_files :: "(file_id \<times> path \<times> nat) list"
  m_updated_at :: nat

text \<open>
  A \<open>Buffer\<close>: bytes sent by a client, or the JSON text of the manifest, kept as the
  document that \<open>writeJsonSync\<close> serialises.
\<close>

datatype blob = Raw string | ManifestJson GitManifest

record commit =
  cid :: commit_id
  tree :: "(path \<times> blob) list"
  message :: string
  ctime :: nat

text \<open>
  The vault. \<open>branch\<close> is the linear history, HEAD first; \<open>dangling\<close> holds the commit
  objects that \<open>git commit --amend\<close> replaced (they stay in the object store).
  \<open>staged\<close> is the git index. \<open>now\<close> is the clock, in seconds.
\<close>

record vault =
  git_dir :: bool
  worktree :: "(path \<times> blob) list"
  staged :: "(path \<times> blob) list"
  branch :: "commit list"
  dangling :: "commit list"
  files :: "FileMetadata list"
  path_history :: "PathHistoryEntry list"
  next_uuid :: nat
  yjs_documents :: "(file_id \<times> string) list"
  now :: nat

datatype merge_outcome = Clean blob | Conflicts blob | MergeFailed

text \<open>
  What the server calls outside its own code and what is not fixed by the command line
  alone: SHA-256; \<open>git merge-file\<close> (arguments in the order of \<open>mergeFile\<close>: base, local,
  remote); the Yjs library (applying an update to a stored document, \<open>None\<close> when it throws,
  and reading the text \<open>content\<close>); the ignore rules of git (whether the ignore files of the
  working directory exclude a path); and the rename detection of \<open>git diff\<close> (given the entries
  that disappeared and the entries that appeared between two trees, the disappeared paths
  that git pairs with an appeared one and therefore does not list).
\<close>

record tools =
  sha256 :: "blob \<Rightarrow> hash"
  merge_tool :: "blob \<Rightarrow> blob \<Rightarrow> blob \<Rightarrow> merge_outcome"
  yjs_apply :: "string option \<Rightarrow> string \<Rightarrow> string option"
  yjs_text :: "string \<Rightarrow> string"
  ignores :: "(path \<times> blob) list \<Rightarrow> path \<Rightarrow> bool"
  rename_sources :: "(path \<times> blob) list \<Rightarrow> (path \<times> blob) list \<Rightarrow> path list"

text \<open>
  How a git command line fails, and the exceptions of the server: the \<open>Error\<close> that the
  function \<open>git\<close> of \<open>db.ts\<close> throws (it keeps the arguments of the command), the error of
  \<open>git merge-file\<close> that \<open>mergeFile\<close> throws again, and an exception of the Yjs library.
\<close>

datatype git_error = NotARepo | NothingToCommit | PathspecNoMatch | PathIgnored | BadRevision
  | MvFailed | NoHead | AmendEmpty | ShellFailed

datatype exn = GitCommandFailed string git_error | MergeFileFailed | YjsFailed

section \<open>Vault names (\<open>db.ts\<close>)\<close>

fun startsWith :: "string \<Rightarrow> string \<Rightarrow> bool" where
  "startsWith s p = (take (length p) s = p)"

fun includes_str :: "string \<Rightarrow> string \<Rightarrow> bool" where
  "includes_str [] p = (p = [])"
| "includes_str (c # cs) p = (startsWith (c # cs) p \<or> includes_str cs p)"

definition VALID_VAULT_NAME :: "string \<Rightarrow> bool" where
  "VALID_VAULT_NAME v \<longleftrightarrow> v \<noteq> [] \<and>
     list_all (\<lambda>c. c \<in> set ''abcdefghijklmnopqrstuvwxyzABCDEFGHIJKLMNOPQRSTUVWXYZ0123456789_- '') v"

definition validateVaultName :: "string \<Rightarrow> bool" where
  "validateVaultName vaultName \<longleftrightarrow>
     (if vaultName = [] \<or> length vaultName > 100 then False
      else if \<not> VALID_VAULT_NAME vaultName then False
      else if includes_str vaultName ''..'' \<or> includes_str vaultName ''/''
              \<or> includes_str vaultName [CHR 0x5C] then False
      else True)"

section \<open>Command lines\<close>

text \<open>
  The server builds each git command line by writing a path or a message between double
  quotes and runs it through \<open>/bin/sh\<close>. \<open>dq_word\<close> is the word the shell makes of such a
  text: a backslash before \<open>$\<close>, a backquote, a double quote or a backslash gives that
  character, a backslash before a newline gives nothing, any other backslash stays. A text
  with an unescaped double quote, \<open>$\<close> or backquote, or with a backslash at its end, makes
  another command line than the one intended (an expansion, more words, a syntax error):
  this is outside the model, and such a command is taken to fail.
\<close>

definition dquote :: char where
  "dquote = CHR 0x22"

definition backslash :: char where
  "backslash = CHR 0x5C"

definition newline :: char where
  "newline = CHR 0x0A"

fun dq_word :: "string \<Rightarrow> string option" where
  "dq_word [] = Some []"
| "dq_word [c] =
     (if c = backslash \<or> c = dquote \<or> c = CHR ''$'' \<or> c = CHR 0x60 then None else Some [c])"
| "dq_word (c # d # ds) =
     (if c = backslash
      then (if d = backslash \<or> d = dquote \<or> d = CHR ''$'' \<or> d = CHR 0x60
            then map_option ((#) d) (dq_word ds)
            else if d = newline then dq_word ds
            else map_option ((#) c) (dq_word (d # ds)))
      else if c = dquote \<or> c = CHR ''$'' \<or> c = CHR 0x60 then None
      else map_option ((#) c) (dq_word (d # ds)))"

definition sh_arg :: "string \<Rightarrow> (string \<Rightarrow> git_error + 'a) \<Rightarrow> git_error + 'a" where
  "sh_arg text k = (case dq_word text of None \<Rightarrow> Inl ShellFailed | Some w \<Rightarrow> k w)"

text \<open>
  A text between double quotes in a command line, and the commit message of \<open>commitFile\<close>,
  in which every double quote is replaced by a backslash and a double quote.
\<close>

definition in_quotes :: "string \<Rightarrow> string" where
  "in_quotes s = dquote # s @ [dquote]"

definition escape_quotes :: "string \<Rightarrow> string" where
  "escape_quotes s = concat (map (\<lambda>c. if c = dquote then [backslash, dquote] else [c]) s)"

text \<open>
  What git prints for a list of paths, one per line: a path with a control character, a
  double quote, a backslash or a byte above \<open>0x7E\<close> is printed between double quotes with
  these bytes escaped (\<open>core.quotePath\<close>, which is on unless configured otherwise).
\<close>

definition octal_digit :: "nat \<Rightarrow> char" where
  "octal_digit d = char_of (48 + d)"

definition c_escape :: "char \<Rightarrow> string" where
  "c_escape c =
     (let n = (of_char c :: nat)
      in if c = dquote then [backslash, dquote]
         else if c = backslash then [backslash, backslash]
         else if n = 7 then [backslash, CHR ''a'']
         else if n = 8 then [backslash, CHR ''b'']
         else if n = 9 then [backslash, CHR ''t'']
         else if n = 10 then [backslash, CHR ''n'']
         else if n = 11 then [backslash, CHR ''v'']
         else if n = 12 then [backslash, CHR ''f'']
         else if n = 13 then [backslash, CHR ''r'']
         else if n < 32 \<or> 127 \<le> n
         then [backslash, octal_digit (n div 64), octal_digit (n div 8 mod 8), octal_digit (n mod 8)]
         else [c])"

definition quote_path :: "path \<Rightarrow> string" where
  "quote_path p =
     (if list_all (\<lambda>c. c_escape c = [c]) p then p else in_quotes (concat (map c_escape p)))"

definition print_paths :: "path list \<Rightarrow> string" where
  "print_paths ps = concat (map (\<lambda>p. quote_path p @ [newline]) ps)"

text \<open>
  \<open>String.prototype.trim\<close> and \<open>split('\n')\<close>. The function \<open>git\<close> of \<open>db.ts\<close> returns
  the output of the command trimmed. White space beyond ASCII cannot stand at an end of the
  output of git, where such bytes are printed escaped between double quotes.
\<close>

definition js_space :: "char \<Rightarrow> bool" where
  "js_space c \<longleftrightarrow> (of_char c :: nat) \<in> {9, 10, 11, 12, 13, 32}"

definition js_trim :: "string \<Rightarrow> string" where
  "js_trim s = rev (dropWhile js_space (rev (dropWhile js_space s)))"

fun split_nl :: "string \<Rightarrow> string list" where
  "split_nl [] = [[]]"
| "split_nl (c # cs) =
     (if c = newline then [] # split_nl cs
      else (case split_nl cs of [] \<Rightarrow> [[c]] | x # xs \<Rightarrow> (c # x) # xs))"

section \<open>The git commands the server runs\<close>

text \<open>
  The contract of the external tool on a vault whose paths are plain names of files: each
  path names one file (no directory in the way, no pathspec wildcard). The index and the
  trees are kept as association lists; git lists paths in the order of their bytes.
  \<open>git diff --name-only\<close> lists the paths whose blob differs between the two trees, without
  the old names of the files that its rename detection pairs with a new name.
\<close>

definition tree_eq :: "(path \<times> blob) list \<Rightarrow> (path \<times> blob) list \<Rightarrow> bool" where
  "tree_eq a b = list_all (\<lambda>p. map_of a p = map_of b p) (map fst a @ map fst b)"

definition diff_names :: "tools \<Rightarrow> (path \<times> blob) list \<Rightarrow> (path \<times> blob) list \<Rightarrow> path list" where
  "diff_names T a b =
     (let gone = filter (\<lambda>(p, x). map_of b p = None) a;
          come = filter (\<lambda>(p, x). map_of a p = None) b;
          renamed = rename_sources T gone come
      in sort (filter (\<lambda>p. map_of a p \<noteq> map_of b p
                          \<and> \<not> (map_of b p = None \<and> p \<in> set renamed))
                (remdups (map fst a @ map fst b))))"

definition fresh_cid :: "vault \<Rightarrow> commit_id" where
  "fresh_cid st = length (branch st) + length (dangling st)"

definition head_tree :: "vault \<Rightarrow> (path \<times> blob) list" where
  "head_tree st = (case branch st of [] \<Rightarrow> [] | c # _ \<Rightarrow> tree c)"

definition find_commit :: "vault \<Rightarrow> commit_id \<Rightarrow> commit option" where
  "find_commit st c = find (\<lambda>k. cid k = c) (branch st @ dangling st)"

text \<open>
  \<open>git add\<close> of one path: it stages the file, or its removal when the file is gone and was
  tracked. It refuses an untracked path that the ignore rules exclude.
\<close>

definition git_add :: "tools \<Rightarrow> path \<Rightarrow> vault \<Rightarrow> git_error + vault" where
  "git_add T p st =
     (if \<not> git_dir st then Inl NotARepo
      else case map_of (worktree st) p of
        Some b \<Rightarrow>
          (if map_of (staged st) p = None \<and> ignores T (worktree st) p then Inl PathIgnored
           else Inr (st\<lparr>staged := AList.update p b (staged st)\<rparr>))
      | None \<Rightarrow>
          (if map_of (staged st) p \<noteq> None
           then Inr (st\<lparr>staged := AList.delete p (staged st)\<rparr>)
           else Inl PathspecNoMatch))"

definition git_commit_m :: "string \<Rightarrow> vault \<Rightarrow> git_error + vault" where
  "git_commit_m msg st =
     (if \<not> git_dir st then Inl NotARepo
      else if tree_eq (staged st) (head_tree st) then Inl NothingToCommit
      else Inr (st\<lparr>branch :=
             \<lparr>cid = fresh_cid st, tree = staged st, message = msg, ctime = now st\<rparr> # branch st\<rparr>))"

definition git_commit_amend :: "vault \<Rightarrow> git_error + vault" where
  "git_commit_amend st =
     (if \<not> git_dir st then Inl NotARepo
      else case branch st of
        [] \<Rightarrow> Inl NoHead
      | c # rest \<Rightarrow>
          (if (case rest of [] \<Rightarrow> False | d # _ \<Rightarrow> tree_eq (staged st) (tree d))
           then Inl AmendEmpty
           else Inr (st\<lparr>branch :=
                  \<lparr>cid = fresh_cid st, tree = staged st, message = message c, ctime = now st\<rparr> # rest,
                  dangling := c # dangling st\<rparr>)))"

definition git_mv :: "path \<Rightarrow> path \<Rightarrow> vault \<Rightarrow> git_error + vault" where
  "git_mv old new st =
     (if \<not> git_dir st then Inl NotARepo
      else case (map_of (worktree st) old, map_of (staged st) old) of
        (Some w, Some s) \<Rightarrow>
          (if old = new \<or> map_of (worktree st) new \<noteq> None then Inl MvFailed
           else Inr (st\<lparr>worktree := AList.update new w (AList.delete old (worktree st)),
                        staged := AList.update new s (AList.delete old (staged st))\<rparr>))
      | _ \<Rightarrow> Inl MvFailed)"

text \<open>The output of \<open>git ls-files\<close> and of \<open>git diff --name-only\<close>.\<close>

definition git_ls_files :: "vault \<Rightarrow> git_error + string" where
  "git_ls_files st =
     (if \<not> git_dir st then Inl NotARepo
      else Inr (print_paths (sort (map fst (staged st)))))"

definition git_diff_name_only ::
  "tools \<Rightarrow> commit_id \<Rightarrow> commit_id \<Rightarrow> vault \<Rightarrow> git_error + string" where
  "git_diff_name_only T a b st =
     (if \<not> git_dir st then Inl NotARepo
      else case (find_commit st a, find_commit st b) of
        (Some x, Some y) \<Rightarrow> Inr (print_paths (diff_names T (tree x) (tree y)))
      | _ \<Rightarrow> Inl BadRevision)"

text \<open>\<open>git log -1 -- path\<close>: the newest commit of the history that changed the path.\<close>

fun last_change :: "path \<Rightarrow> commit list \<Rightarrow> commit option" where
  "last_change p [] = None"
| "last_change p [c] = (if map_of (tree c) p \<noteq> None then Some c else None)"
| "last_change p (c # d # rest) =
     (if map_of (tree c) p \<noteq> map_of (tree d) p then Some c else last_change p (d # rest))"

definition git_log_1 :: "path \<Rightarrow> vault \<Rightarrow> git_error + commit option" where
  "git_log_1 p st = (if \<not> git_dir st then Inl NotARepo else Inr (last_change p (branch st)))"

text \<open>
  The lines the code makes of an output of git: \<open>git\<close> trims it and the callers split it at
  the newlines.
\<close>

definition output_lines :: "string \<Rightarrow> string list" where
  "output_lines out = split_nl (js_trim out)"

section \<open>Identity store (\<open>metadata.ts\<close>)\<close>

definition manifest_path :: path where
  "manifest_path = ''.scion/manifest.json''"

definition updateGitManifest :: "string \<Rightarrow> vault \<Rightarrow> vault" where
  "updateGitManifest vaultName st =
     (let rows = filter (\<lambda>r. vault_id r = vaultName \<and> deleted_at r = None) (files st);
          manifest = \<lparr>version = 1, m_vault_id = vaultName,
                      m_files = map (\<lambda>r. (file_id r, current_path r, created_at r)) rows,
                      m_updated_at = now st\<rparr>
      in st\<lparr>worktree := AList.update manifest_path (ManifestJson manifest) (worktree st)\<rparr>)"

definition isVaultBootstrapped :: "string \<Rightarrow> vault \<Rightarrow> bool" where
  "isVaultBootstrapped vaultName st \<longleftrightarrow> filter (\<lambda>r. vault_id r = vaultName) (files st) \<noteq> []"

definition createFileRecord ::
  "string \<Rightarrow> path \<Rightarrow> hash option \<Rightarrow> commit_id option \<Rightarrow> vault \<Rightarrow> FileMetadata \<times> vault" where
  "createFileRecord vaultName filePath contentHash gitCommit st =
     (let fileId = next_uuid st;
          row = \<lparr>file_id = fileId, vault_id = vaultName, current_path = filePath,
                 content_hash = contentHash, git_commit = gitCommit,
                 created_at = now st, updated_at = now st, deleted_at = None\<rparr>
      in (row, updateGitManifest vaultName
                 (st\<lparr>files := files st @ [row], next_uuid := Suc fileId\<rparr>)))"

definition getFileById :: "string \<Rightarrow> file_id \<Rightarrow> vault \<Rightarrow> FileMetadata option" where
  "getFileById vaultName fileId st = find (\<lambda>r. file_id r = fileId) (files st)"

definition getFileByPath :: "string \<Rightarrow> path \<Rightarrow> vault \<Rightarrow> FileMetadata option" where
  "getFileByPath vaultName filePath st =
     find (\<lambda>r. vault_id r = vaultName \<and> current_path r = filePath \<and> deleted_at r = None) (files st)"

definition getFilesByHash :: "string \<Rightarrow> hash \<Rightarrow> vault \<Rightarrow> FileMetadata list" where
  "getFilesByHash vaultName contentHash st =
     filter (\<lambda>r. vault_id r = vaultName \<and> content_hash r = Some contentHash \<and> deleted_at r = None)
       (files st)"

text \<open>
  The \<open>updates\<close> argument of \<open>updateFileRecord\<close>: a field is \<open>None\<close> when the caller left it
  \<open>undefined\<close>, and \<open>Some v\<close> when it passed \<open>v\<close> (which may be \<open>null\<close>).
\<close>

record updates =
  upd_current_path :: "path option"
  upd_content_hash :: "hash option option"
  upd_git_commit :: "commit_id option option"

definition apply_updates :: "updates \<Rightarrow> nat \<Rightarrow> FileMetadata \<Rightarrow> FileMetadata" where
  "apply_updates u t r =
     (let r1 = r\<lparr>updated_at := t\<rparr>;
          r2 = (case upd_current_path u of None \<Rightarrow> r1 | Some p \<Rightarrow> r1\<lparr>current_path := p\<rparr>);
          r3 = (case upd_content_hash u of None \<Rightarrow> r2 | Some h \<Rightarrow> r2\<lparr>content_hash := h\<rparr>)
      in (case upd_git_commit u of None \<Rightarrow> r3 | Some c \<Rightarrow> r3\<lparr>git_commit := c\<rparr>))"

definition updateFileRecord :: "string \<Rightarrow> file_id \<Rightarrow> updates \<Rightarrow> vault \<Rightarrow> bool \<times> vault" where
  "updateFileRecord vaultName fileId u st =
     (let changes = filter (\<lambda>r. file_id r = fileId) (files st) \<noteq> [];
          st1 = st\<lparr>files := map (\<lambda>r. if file_id r = fileId then apply_updates u (now st) r else r)
                               (files st)\<rparr>
      in if changes \<and> upd_current_path u \<noteq> None then (changes, updateGitManifest vaultName st1)
         else (changes, st1))"

definition recordPathChange :: "string \<Rightarrow> file_id \<Rightarrow> path \<Rightarrow> path \<Rightarrow> vault \<Rightarrow> vault" where
  "recordPathChange vaultName fileId oldPath newPath st =
     st\<lparr>path_history := path_history st @
          [\<lparr>ph_file_id = fileId, old_path = oldPath, new_path = newPath, changed_at = now st\<rparr>]\<rparr>"

text \<open>
  \<open>ORDER BY changed_at DESC\<close>: newest first, the rows of the same instant in the order of
  their insertion. \<open>getAllPreviousPaths\<close> collects the old paths in a \<open>Set\<close>, which keeps
  the first occurrence of each.
\<close>

definition getPathHistory :: "string \<Rightarrow> file_id \<Rightarrow> vault \<Rightarrow> PathHistoryEntry list" where
  "getPathHistory vaultName fileId st =
     sort_key (\<lambda>e. - int (changed_at e)) (filter (\<lambda>e. ph_file_id e = fileId) (path_history st))"

definition getAllPreviousPaths :: "string \<Rightarrow> file_id \<Rightarrow> vault \<Rightarrow> path list" where
  "getAllPreviousPaths vaultName fileId st =
     rev (remdups (rev (map old_path (getPathHistory vaultName fileId st))))"

definition softDeleteFile :: "string \<Rightarrow> file_id \<Rightarrow> vault \<Rightarrow> bool \<times> vault" where
  "softDeleteFile vaultName fileId st =
     (let changes = filter (\<lambda>r. file_id r = fileId) (files st) \<noteq> [];
          st1 = st\<lparr>files := map (\<lambda>r. if file_id r = fileId
                                      then r\<lparr>deleted_at := Some (now st), updated_at := now st\<rparr>
                                      else r) (files st)\<rparr>
      in if changes then (changes, updateGitManifest vaultName st1) else (changes, st1))"

definition truthy_str :: "string option \<Rightarrow> bool" where
  "truthy_str s \<longleftrightarrow> (case s of None \<Rightarrow> False | Some x \<Rightarrow> x \<noteq> [])"

definition truthy_num :: "nat option \<Rightarrow> bool" where
  "truthy_num n \<longleftrightarrow> (case n of None \<Rightarrow> False | Some x \<Rightarrow> x \<noteq> 0)"

definition ensureFileId ::
  "string \<Rightarrow> path \<Rightarrow> hash option \<Rightarrow> commit_id option \<Rightarrow> vault \<Rightarrow> file_id \<times> vault" where
  "ensureFileId vaultName filePath contentHash gitCommit st =
     (case getFileByPath vaultName filePath st of
        Some existing \<Rightarrow>
          (if truthy_str contentHash \<or> gitCommit \<noteq> None
           then (file_id existing,
                 snd (updateFileRecord vaultName (file_id existing)
                        \<lparr>upd_current_path = None, upd_content_hash = Some contentHash,
                         upd_git_commit = Some gitCommit\<rparr> st))
           else (file_id existing, st))
      | None \<Rightarrow>
          (let (row, st1) = createFileRecord vaultName filePath contentHash gitCommit st
           in (file_id row, st1)))"

definition detectRenameByHash :: "string \<Rightarrow> path \<Rightarrow> hash \<Rightarrow> vault \<Rightarrow> FileMetadata option" where
  "detectRenameByHash vaultName missingPath contentHash st =
     (let filesWithHash = getFilesByHash vaultName contentHash st;
          candidates = filter (\<lambda>f. current_path f \<noteq> missingPath) filesWithHash
      in (case candidates of [c] \<Rightarrow> Some c | _ \<Rightarrow> None))"

section \<open>Content store (\<open>db.ts\<close>)\<close>

text \<open>
  The message of an exception. The function \<open>git\<close> of \<open>db.ts\<close> makes it of the arguments
  and of what the command printed on its standard error; when that is empty it takes the
  message of \<open>execSync\<close>, which names the command line. \<open>git commit\<close> prints
  \<open>nothing to commit\<close> on its standard output, so for this failure the standard error is
  empty.
\<close>

definition git_stderr :: "git_error \<Rightarrow> string" where
  "git_stderr e = (case e of
       NotARepo \<Rightarrow> ''fatal: not a git repository (or any of the parent directories): .git''
     | NothingToCommit \<Rightarrow> []
     | PathspecNoMatch \<Rightarrow> ''fatal: pathspec did not match any files''
     | PathIgnored \<Rightarrow> ''The following paths are ignored by one of your .gitignore files''
     | BadRevision \<Rightarrow> ''fatal: bad revision''
     | MvFailed \<Rightarrow> ''fatal: bad source or destination''
     | NoHead \<Rightarrow> ''fatal: You have nothing to amend.''
     | AmendEmpty \<Rightarrow> ''No changes''
     | ShellFailed \<Rightarrow> ''/bin/sh: Syntax error'')"

definition error_message :: "exn \<Rightarrow> string" where
  "error_message x = (case x of
       GitCommandFailed args e \<Rightarrow>
         ''Git command failed: git '' @ args @ [newline] @
         (if git_stderr e = [] then ''Command failed: git '' @ args else git_stderr e)
     | MergeFileFailed \<Rightarrow> ''Command failed: git merge-file''
     | YjsFailed \<Rightarrow> ''Unknown error'')"

text \<open>The function \<open>git\<close> of \<open>db.ts\<close>: a failure becomes an exception that keeps the arguments.\<close>

definition git :: "string \<Rightarrow> git_error + 'a \<Rightarrow> exn + 'a" where
  "git args r = (case r of Inl e \<Rightarrow> Inl (GitCommandFailed args e) | Inr x \<Rightarrow> Inr x)"

definition gitignore :: blob where
  "gitignore = Raw (''.DS_Store'' @ [CHR 0x0A] @ ''Thumbs.db'' @ [CHR 0x0A] @
     ''.scion/metadata.db'' @ [CHR 0x0A] @ ''.scion/metadata.db-wal'' @ [CHR 0x0A] @
     ''.scion/metadata.db-shm'' @ [CHR 0x0A])"

text \<open>
  \<open>initVaultGit\<close>. Its own check of the vault name repeats the one every handler makes
  first, so it is kept at the handlers.
\<close>

definition initVaultGit :: "vault \<Rightarrow> vault" where
  "initVaultGit st =
     (if git_dir st then st
      else st\<lparr>git_dir := True,
              worktree := AList.update ''.gitignore'' gitignore (worktree st),
              staged := [(''.gitignore'', gitignore)],
              branch := [\<lparr>cid = fresh_cid st, tree = [(''.gitignore'', gitignore)],
                          message = ''Initialize vault'', ctime = now st\<rparr>]\<rparr>)"

definition getHeadCommit :: "vault \<Rightarrow> commit_id option" where
  "getHeadCommit st =
     (if \<not> git_dir st then None
      else case branch st of [] \<Rightarrow> None | c # _ \<Rightarrow> Some (cid c))"

text \<open>
  A function that can throw returns the exception or its value, together with the vault as
  it is at that moment: what was written before the exception stays written.
\<close>

definition commitFile ::
  "tools \<Rightarrow> string \<Rightarrow> path \<Rightarrow> blob \<Rightarrow> string \<Rightarrow> vault \<Rightarrow> (exn + commit_id option) \<times> vault" where
  "commitFile T vaultName filePath content msg st =
     (let st0 = initVaultGit st;
          st1 = st0\<lparr>worktree := AList.update filePath content (worktree st0)\<rparr>;
          commit_args = ''commit -m '' @ in_quotes (escape_quotes msg)
      in case git (''add '' @ in_quotes filePath) (sh_arg filePath (\<lambda>w. git_add T w st1)) of
           Inl x \<Rightarrow> (Inl x, st1)
         | Inr st2 \<Rightarrow>
             (case git commit_args (sh_arg (escape_quotes msg) (\<lambda>w. git_commit_m w st2)) of
                Inl x \<Rightarrow>
                  (if includes_str (error_message x) ''nothing to commit''
                   then (Inr (getHeadCommit st2), st2)
                   else (Inl x, st2))
              | Inr st3 \<Rightarrow> (Inr (getHeadCommit st3), st3)))"

definition getFileAtCommit :: "string \<Rightarrow> path \<Rightarrow> commit_id \<Rightarrow> vault \<Rightarrow> blob option" where
  "getFileAtCommit vaultName filePath commitHash st =
     (if \<not> git_dir st then None
      else case find_commit st commitHash of
             None \<Rightarrow> None
           | Some k \<Rightarrow> (case dq_word filePath of None \<Rightarrow> None | Some w \<Rightarrow> map_of (tree k) w))"

definition getCurrentFile :: "string \<Rightarrow> path \<Rightarrow> vault \<Rightarrow> blob option" where
  "getCurrentFile vaultName filePath st = map_of (worktree st) filePath"

definition mergeFile :: "tools \<Rightarrow> blob \<Rightarrow> blob \<Rightarrow> blob \<Rightarrow> exn + (blob \<times> bool)" where
  "mergeFile T base local remote =
     (case merge_tool T base local remote of
        Clean m \<Rightarrow> Inr (m, False)
      | Conflicts m \<Rightarrow> Inr (m, True)
      | MergeFailed \<Rightarrow> Inl MergeFileFailed)"

definition deleteFile :: "tools \<Rightarrow> string \<Rightarrow> path \<Rightarrow> vault \<Rightarrow> bool \<times> vault" where
  "deleteFile T vaultName filePath st =
     (case map_of (worktree st) filePath of
        None \<Rightarrow> (False, st)
      | Some _ \<Rightarrow>
          (let st1 = st\<lparr>worktree := AList.delete filePath (worktree st)\<rparr>
           in (True,
               case sh_arg filePath (\<lambda>w. git_add T w st1) of
                 Inl _ \<Rightarrow> st1
               | Inr st2 \<Rightarrow>
                   (case sh_arg (''Delete '' @ filePath) (\<lambda>w. git_commit_m w st2) of
                      Inl _ \<Rightarrow> st2
                    | Inr st3 \<Rightarrow> st3))))"

text \<open>The filter of \<open>git ls-files\<close> in \<open>getManifest\<close> and \<open>bootstrapVaultMetadata\<close>.\<close>

definition tracked_filter :: "path \<Rightarrow> bool" where
  "tracked_filter f \<longleftrightarrow> f \<noteq> [] \<and> f \<noteq> ''.gitignore'' \<and> \<not> startsWith f ''.scion/''"

text \<open>\<open>git log -1\<close> for a path written between double quotes.\<close>

definition git_log_path :: "path \<Rightarrow> vault \<Rightarrow> git_error + commit option" where
  "git_log_path p st = sh_arg p (\<lambda>w. git_log_1 w st)"

fun bootstrap_loop :: "tools \<Rightarrow> string \<Rightarrow> path list \<Rightarrow> vault \<Rightarrow> vault" where
  "bootstrap_loop T vaultName [] st = st"
| "bootstrap_loop T vaultName (filePath # rest) st =
     (case map_of (worktree st) filePath of
        None \<Rightarrow> bootstrap_loop T vaultName rest st
      | Some content \<Rightarrow>
          (let hash = sha256 T content;
               commit = (case git_log_path filePath st of
                           Inl _ \<Rightarrow> None
                         | Inr c \<Rightarrow> map_option cid c)
           in bootstrap_loop T vaultName rest
                (snd (ensureFileId vaultName filePath (Some hash) commit st))))"

definition bootstrapVaultMetadata :: "tools \<Rightarrow> string \<Rightarrow> vault \<Rightarrow> vault" where
  "bootstrapVaultMetadata T vaultName st =
     (let fs = (case git_ls_files st of
                  Inl _ \<Rightarrow> []
                | Inr out \<Rightarrow> filter tracked_filter (output_lines out));
          st1 = bootstrap_loop T vaultName fs st;
          st2 = updateGitManifest vaultName st1
      in case git_add T manifest_path st2 of
           Inl _ \<Rightarrow> st2
         | Inr st3 \<Rightarrow>
             (case git_commit_m ''Initialize Scion metadata'' st3 of
                Inl _ \<Rightarrow> st3
              | Inr st4 \<Rightarrow> st4))"

text \<open>
  \<open>FileRecord\<close>, a manifest row. \<open>rec_commit\<close> is \<open>None\<close> for the empty output of
  \<open>git log\<close>; \<open>rec_updated_at\<close> is \<open>None\<close> when \<open>parseInt\<close> of that output is \<open>NaN\<close>.
\<close>

record FileRecord =
  rec_file_id :: file_id
  rec_path :: path
  rec_hash :: hash
  rec_commit :: "commit_id option"
  rec_updated_at :: "nat option"

fun manifest_loop ::
  "tools \<Rightarrow> string \<Rightarrow> commit_id \<Rightarrow> path list \<Rightarrow> vault \<Rightarrow> FileRecord list \<times> vault" where
  "manifest_loop T vaultName headCommit [] st = ([], st)"
| "manifest_loop T vaultName headCommit (filePath # rest) st =
     (case map_of (worktree st) filePath of
        None \<Rightarrow> manifest_loop T vaultName headCommit rest st
      | Some content \<Rightarrow>
          (let hash = sha256 T content;
               updatedAt = (case git_log_path filePath st of
                              Inl _ \<Rightarrow> Some (now st)
                            | Inr c \<Rightarrow> map_option ctime c);
               commit = (case git_log_path filePath st of
                           Inl _ \<Rightarrow> Some headCommit
                         | Inr c \<Rightarrow> map_option cid c);
               (fileId, st1) = ensureFileId vaultName filePath (Some hash) commit st;
               (records, st2) = manifest_loop T vaultName headCommit rest st1
           in (\<lparr>rec_file_id = fileId, rec_path = filePath, rec_hash = hash,
                 rec_commit = commit, rec_updated_at = updatedAt\<rparr> # records, st2)))"

definition getManifest :: "tools \<Rightarrow> string \<Rightarrow> vault \<Rightarrow> FileRecord list \<times> vault" where
  "getManifest T vaultName st =
     (let st0 = initVaultGit st
      in case getHeadCommit st0 of
           None \<Rightarrow> ([], st0)
         | Some headCommit \<Rightarrow>
             (case git_ls_files st0 of
                Inl _ \<Rightarrow> ([], st0)
              | Inr out \<Rightarrow>
                  (let fs = filter tracked_filter (output_lines out);
                       st1 = (if fs \<noteq> [] \<and> \<not> isVaultBootstrapped vaultName st0
                              then bootstrapVaultMetadata T vaultName st0 else st0)
                   in manifest_loop T vaultName headCommit fs st1)))"

definition getChangesSince ::
  "tools \<Rightarrow> string \<Rightarrow> commit_id option \<Rightarrow> vault \<Rightarrow> (commit_id option \<times> path list) \<times> vault" where
  "getChangesSince T vaultName sinceCommit st =
     (let st0 = initVaultGit st
      in case getHeadCommit st0 of
           None \<Rightarrow> ((None, []), st0)
         | Some headCommit \<Rightarrow>
             (case sinceCommit of
                None \<Rightarrow> ((Some headCommit, []), st0)
              | Some since \<Rightarrow>
                  (if since = headCommit then ((Some headCommit, []), st0)
                   else case git_diff_name_only T since headCommit st0 of
                     Inr out \<Rightarrow>
                       ((Some headCommit,
                         filter (\<lambda>f. f \<noteq> [] \<and> f \<noteq> ''.gitignore'') (output_lines out)), st0)
                   | Inl _ \<Rightarrow>
                       (let (manifest, st1) = getManifest T vaultName st0
                        in ((Some headCommit, map rec_path manifest), st1)))))"

definition getFileRecord :: "tools \<Rightarrow> string \<Rightarrow> path \<Rightarrow> vault \<Rightarrow> FileRecord option \<times> vault" where
  "getFileRecord T vaultName filePath st =
     (case map_of (worktree st) filePath of
        None \<Rightarrow> (None, st)
      | Some content \<Rightarrow>
          (let hash = sha256 T content;
               commit = (case git_log_path filePath st of
                           Inl _ \<Rightarrow> getHeadCommit st
                         | Inr c \<Rightarrow> map_option cid c);
               updatedAt = (case git_log_path filePath st of
                              Inl _ \<Rightarrow> Some (now st)
                            | Inr c \<Rightarrow> map_option ctime c);
               (fileId, st1) = ensureFileId vaultName filePath (Some hash) commit st
           in (Some \<lparr>rec_file_id = fileId, rec_path = filePath, rec_hash = hash,
                      rec_commit = commit, rec_updated_at = updatedAt\<rparr>, st1)))"

record detect_result =
  found :: bool
  d_newPath :: "path option"
  d_fileId :: "file_id option"
  d_method :: "string option"

text \<open>Strategy 1 of \<open>detectRename\<close>: the record of the given \<open>file_id\<close>, if it answers.\<close>

definition strategy_file_id ::
  "string \<Rightarrow> path \<Rightarrow> file_id option \<Rightarrow> vault \<Rightarrow> FileMetadata option" where
  "strategy_file_id vaultName missingPath fid st =
     (case fid of
        None \<Rightarrow> None
      | Some i \<Rightarrow>
          (case getFileById vaultName i st of
             None \<Rightarrow> None
           | Some metadata \<Rightarrow>
               (if current_path metadata \<noteq> missingPath \<and> \<not> truthy_num (deleted_at metadata)
                then Some metadata else None)))"

definition detectRename ::
  "tools \<Rightarrow> string \<Rightarrow> path \<Rightarrow> hash \<Rightarrow> file_id option \<Rightarrow> vault \<Rightarrow> detect_result \<times> vault" where
  "detectRename T vaultName missingPath contentHash fid st =
     (case strategy_file_id vaultName missingPath fid st of
        Some metadata \<Rightarrow>
          (\<lparr>found = True, d_newPath = Some (current_path metadata),
            d_fileId = Some (file_id metadata), d_method = Some ''file_id''\<rparr>, st)
      | None \<Rightarrow>
          (case detectRenameByHash vaultName missingPath contentHash st of
             Some matchedFile \<Rightarrow>
               (\<lparr>found = True, d_newPath = Some (current_path matchedFile),
                 d_fileId = Some (file_id matchedFile), d_method = Some ''hash_match''\<rparr>, st)
           | None \<Rightarrow>
               (let (allFiles, st1) = getManifest T vaultName st
                in case find (\<lambda>file. missingPath \<in>
                                set (getAllPreviousPaths vaultName (rec_file_id file) st1)) allFiles of
                     Some file \<Rightarrow>
                       (\<lparr>found = True, d_newPath = Some (rec_path file),
                         d_fileId = Some (rec_file_id file), d_method = Some ''path_history''\<rparr>, st1)
                   | None \<Rightarrow>
                       (\<lparr>found = False, d_newPath = None, d_fileId = None, d_method = None\<rparr>, st1))))"

record rename_result =
  rn_success :: bool
  rn_commit :: "commit_id option"
  rn_error :: "string option"

definition rename_failed :: "string \<Rightarrow> rename_result" where
  "rename_failed e = \<lparr>rn_success = False, rn_commit = None, rn_error = Some e\<rparr>"

definition renameFile ::
  "tools \<Rightarrow> string \<Rightarrow> file_id \<Rightarrow> path \<Rightarrow> path \<Rightarrow> blob option \<Rightarrow> vault \<Rightarrow> rename_result \<times> vault" where
  "renameFile T vaultName fid oldPath newPath newContent st =
     (let st0 = initVaultGit st;
          mv_args = ''mv '' @ in_quotes oldPath @ '' '' @ in_quotes newPath;
          add_args = ''add '' @ in_quotes newPath;
          commit_text = ''Rename '' @ oldPath @ '' to '' @ newPath;
          commit_args = ''commit -m '' @ in_quotes commit_text
      in if map_of (worktree st0) oldPath = None
         then (rename_failed ''File not found at old path'', st0)
         else case getFileById vaultName fid st0 of
           None \<Rightarrow> (rename_failed ''File ID not found in metadata'', st0)
         | Some metadata \<Rightarrow>
             (if current_path metadata \<noteq> oldPath
              then (rename_failed ''File ID does not match old path'', st0)
              else case git mv_args
                          (sh_arg oldPath (\<lambda>a. sh_arg newPath (\<lambda>b. git_mv a b st0))) of
                Inl x \<Rightarrow> (rename_failed (error_message x), st0)
              | Inr st1 \<Rightarrow>
                  (let st1' = (case newContent of
                                 None \<Rightarrow> st1
                               | Some c \<Rightarrow> st1\<lparr>worktree := AList.update newPath c (worktree st1)\<rparr>)
                   in case (case newContent of
                              None \<Rightarrow> Inr st1'
                            | Some c \<Rightarrow> git add_args (sh_arg newPath (\<lambda>w. git_add T w st1'))) of
                        Inl x \<Rightarrow> (rename_failed (error_message x), st1')
                      | Inr st2 \<Rightarrow>
                          (case git commit_args (sh_arg commit_text (\<lambda>w. git_commit_m w st2)) of
                             Inl x \<Rightarrow> (rename_failed (error_message x), st2)
                           | Inr st3 \<Rightarrow>
                               (case (case newContent of
                                        None \<Rightarrow> map_of (worktree st3) newPath
                                      | Some c \<Rightarrow> Some c) of
                                  None \<Rightarrow> (rename_failed ''ENOENT'', st3)
                                | Some hashed \<Rightarrow>
                                    (let commit = getHeadCommit st3;
                                         hash = sha256 T hashed;
                                         st4 = recordPathChange vaultName fid oldPath newPath st3;
                                         st5 = snd (updateFileRecord vaultName fid
                                                 \<lparr>upd_current_path = Some newPath,
                                                  upd_content_hash = Some (Some hash),
                                                  upd_git_commit = Some commit\<rparr> st4);
                                         st6 = updateGitManifest vaultName st5;
                                         st7 = (case git_add T manifest_path st6 of
                                                  Inl _ \<Rightarrow> st6
                                                | Inr s \<Rightarrow>
                                                    (case git_commit_amend s of
                                                       Inl _ \<Rightarrow> s
                                                     | Inr s' \<Rightarrow> s'))
                                     in (\<lparr>rn_success = True, rn_commit = commit, rn_error = None\<rparr>,
                                         st7)))))))"

section \<open>Operations of the V2 protocol (\<open>operations.ts\<close>)\<close>

record SyncOperation =
  op_type :: string
  op_path :: path
  op_file_id :: "file_id option"
  op_old_path :: "path option"
  op_content :: "string option"
  op_base_commit :: "commit_id option"

record OperationResult =
  index :: nat
  success :: bool
  res_file_id :: "file_id option"
  res_commit :: "commit_id option"
  res_hash :: "hash option"
  error :: "string option"
  merged :: "bool option"
  has_conflicts :: "bool option"
  merged_content :: "blob option"

text \<open>The text of a \<open>file_id\<close> inside an error message.\<close>

definition id_text :: "file_id \<Rightarrow> string" where
  "id_text n = replicate n (CHR ''i'')"

definition failed :: "nat \<Rightarrow> string \<Rightarrow> OperationResult" where
  "failed i e = \<lparr>index = i, success = False, res_file_id = None, res_commit = None,
     res_hash = None, error = Some e, merged = None, has_conflicts = None,
     merged_content = None\<rparr>"

definition succeeded ::
  "nat \<Rightarrow> file_id option \<Rightarrow> commit_id option \<Rightarrow> hash option \<Rightarrow> bool \<Rightarrow> bool \<Rightarrow> blob option
     \<Rightarrow> OperationResult" where
  "succeeded i f c h m hc mc = \<lparr>index = i, success = True, res_file_id = f, res_commit = c,
     res_hash = h, error = None, merged = Some m, has_conflicts = Some hc,
     merged_content = mc\<rparr>"

definition processCreate ::
  "tools \<Rightarrow> string \<Rightarrow> SyncOperation \<Rightarrow> nat \<Rightarrow> vault \<Rightarrow> (exn + OperationResult) \<times> vault" where
  "processCreate T vaultName op i st =
     (if \<not> truthy_str (op_content op)
      then (Inr (failed i ''Content required for create operation''), st)
      else case getCurrentFile vaultName (op_path op) st of
        Some _ \<Rightarrow> (Inr (failed i (''File already exists: '' @ op_path op)), st)
      | None \<Rightarrow>
          (let clientContent = Raw (case op_content op of None \<Rightarrow> [] | Some b \<Rightarrow> b);
               clientHash = sha256 T clientContent
           in case commitFile T vaultName (op_path op) clientContent (''Add '' @ op_path op) st of
                (Inl e, st1) \<Rightarrow> (Inl e, st1)
              | (Inr commit, st1) \<Rightarrow>
                  (let (fid, st2) = ensureFileId vaultName (op_path op) (Some clientHash) commit st1
                   in (Inr (succeeded i (Some fid) commit (Some clientHash) False False None),
                       st2))))"

definition processModify ::
  "tools \<Rightarrow> string \<Rightarrow> SyncOperation \<Rightarrow> nat \<Rightarrow> vault \<Rightarrow> (exn + OperationResult) \<times> vault" where
  "processModify T vaultName op i st =
     (if \<not> truthy_str (op_content op)
      then (Inr (failed i ''Content required for modify operation''), st)
      else case op_file_id op of
        None \<Rightarrow> (Inr (failed i ''file_id required for modify operation''), st)
      | Some op_fid \<Rightarrow>
          (case (case getFileById vaultName op_fid st of
                   None \<Rightarrow> None
                 | Some m \<Rightarrow> if truthy_num (deleted_at m) then None else Some m) of
             None \<Rightarrow> (Inr (failed i (''File not found: '' @ id_text op_fid)), st)
           | Some metadata \<Rightarrow>
               (let clientContent = Raw (case op_content op of None \<Rightarrow> [] | Some b \<Rightarrow> b);
                    clientHash = sha256 T clientContent;
                    headCommit = getHeadCommit st;
                    p = current_path metadata
                in if op_base_commit op \<noteq> None \<and> op_base_commit op = headCommit
                   then (case commitFile T vaultName p clientContent (''Update '' @ p) st of
                           (Inl e, st1) \<Rightarrow> (Inl e, st1)
                         | (Inr commit, st1) \<Rightarrow>
                             (let (fid, st2) = ensureFileId vaultName p (Some clientHash) commit st1
                              in (Inr (succeeded i (Some fid) commit (Some clientHash)
                                         False False None), st2)))
                   else case getCurrentFile vaultName p st of
                     None \<Rightarrow>
                       (case commitFile T vaultName p clientContent (''Recreate '' @ p) st of
                          (Inl e, st1) \<Rightarrow> (Inl e, st1)
                        | (Inr commit, st1) \<Rightarrow>
                            (let (fid, st2) = ensureFileId vaultName p (Some clientHash) commit st1
                             in (Inr (succeeded i (Some fid) commit (Some clientHash)
                                        False False None), st2)))
                   | Some serverContent \<Rightarrow>
                       (if clientHash = sha256 T serverContent
                        then (let (record, st1) = getFileRecord T vaultName p st;
                                  c = (case (case record of None \<Rightarrow> None | Some r \<Rightarrow> rec_commit r) of
                                         Some k \<Rightarrow> Some k
                                       | None \<Rightarrow> headCommit)
                              in (Inr (succeeded i (Some op_fid) c (Some clientHash)
                                         False False None), st1))
                        else
                          (let baseContent =
                                 (case op_base_commit op of
                                    None \<Rightarrow> serverContent
                                  | Some b \<Rightarrow>
                                      (case getFileAtCommit vaultName p b st of
                                         None \<Rightarrow> serverContent
                                       | Some x \<Rightarrow> x))
                           in case mergeFile T baseContent clientContent serverContent of
                                Inl e \<Rightarrow> (Inl e, st)
                              | Inr (mergedBytes, hasConflicts) \<Rightarrow>
                                  (let mergedHash = sha256 T mergedBytes
                                   in if hasConflicts
                                      then (let (fid, st1) =
                                                  ensureFileId vaultName p (Some mergedHash) headCommit st
                                            in (Inr (succeeded i (Some fid) headCommit (Some mergedHash)
                                                       True True (Some mergedBytes)), st1))
                                      else case commitFile T vaultName p mergedBytes (''Merge '' @ p) st of
                                             (Inl e, st1) \<Rightarrow> (Inl e, st1)
                                           | (Inr commit, st1) \<Rightarrow>
                                               (let (fid, st2) =
                                                      ensureFileId vaultName p (Some mergedHash) commit st1
                                                in (Inr (succeeded i (Some fid) commit (Some mergedHash)
                                                           True False (Some mergedBytes)), st2))))))))"

definition processRename ::
  "tools \<Rightarrow> string \<Rightarrow> SyncOperation \<Rightarrow> nat \<Rightarrow> vault \<Rightarrow> (exn + OperationResult) \<times> vault" where
  "processRename T vaultName op i st =
     (case op_file_id op of
        None \<Rightarrow> (Inr (failed i ''file_id required for rename operation''), st)
      | Some op_fid \<Rightarrow>
          (case (case op_old_path op of None \<Rightarrow> None | Some q \<Rightarrow> if q = [] then None else Some q) of
             None \<Rightarrow> (Inr (failed i ''old_path required for rename operation''), st)
           | Some oldPath \<Rightarrow>
               (let newContent = (if truthy_str (op_content op)
                                  then map_option Raw (op_content op) else None);
                    (result, st1) = renameFile T vaultName op_fid oldPath (op_path op) newContent st
                in if \<not> rn_success result
                   then (Inr (\<lparr>index = i, success = False, res_file_id = None, res_commit = None,
                                res_hash = None, error = rn_error result, merged = None,
                                has_conflicts = None, merged_content = None\<rparr>), st1)
                   else (let (record, st2) = getFileRecord T vaultName (op_path op) st1
                         in (Inr (succeeded i (map_option rec_file_id record) (rn_commit result)
                                    (map_option rec_hash record) False False None), st2)))))"

definition processDelete ::
  "tools \<Rightarrow> string \<Rightarrow> SyncOperation \<Rightarrow> nat \<Rightarrow> vault \<Rightarrow> (exn + OperationResult) \<times> vault" where
  "processDelete T vaultName op i st =
     (case op_file_id op of
        None \<Rightarrow> (Inr (failed i ''file_id required for delete operation''), st)
      | Some op_fid \<Rightarrow>
          (case getFileById vaultName op_fid st of
             None \<Rightarrow> (Inr (failed i (''File not found: '' @ id_text op_fid)), st)
           | Some metadata \<Rightarrow>
               (let st1 = snd (softDeleteFile vaultName op_fid st);
                    (deleted, st2) = deleteFile T vaultName (current_path metadata) st1
                in if \<not> deleted
                   then (Inr (failed i (''Failed to delete file: '' @ current_path metadata)), st2)
                   else (Inr \<lparr>index = i, success = True, res_file_id = Some op_fid,
                               res_commit = getHeadCommit st2, res_hash = None, error = None,
                               merged = Some False, has_conflicts = Some False,
                               merged_content = None\<rparr>, st2))))"

definition processOperation ::
  "tools \<Rightarrow> string \<Rightarrow> SyncOperation \<Rightarrow> nat \<Rightarrow> vault \<Rightarrow> OperationResult \<times> vault" where
  "processOperation T vaultName op i st =
     (let st0 = initVaultGit st
      in case (if op_type op = ''create'' then processCreate T vaultName op i st0
               else if op_type op = ''modify'' then processModify T vaultName op i st0
               else if op_type op = ''rename'' then processRename T vaultName op i st0
               else if op_type op = ''delete'' then processDelete T vaultName op i st0
               else (Inr (failed i (''Unknown operation type: '' @ op_type op)), st0)) of
           (Inl err, st1) \<Rightarrow> (failed i (error_message err), st1)
         | (Inr result, st1) \<Rightarrow> (result, st1))"

section \<open>HTTP handlers (\<open>server.ts\<close>)\<close>

datatype 'a reply = Ok200 'a | Err400 string | Err404 string | Err500 exn

record sync_response =
  sr_success :: bool
  sr_commit :: "commit_id option"
  sr_hash :: hash
  sr_file_id :: file_id
  sr_merged :: bool
  sr_has_conflicts :: bool
  sr_merged_content :: "blob option"

definition manifest_handler ::
  "tools \<Rightarrow> string \<Rightarrow> vault \<Rightarrow> (FileRecord list \<times> commit_id option) reply \<times> vault" where
  "manifest_handler T vaultName st =
     (if \<not> validateVaultName vaultName then (Err400 ''Invalid vault name'', st)
      else (let (fs, st1) = getManifest T vaultName (initVaultGit st)
            in (Ok200 (fs, getHeadCommit st1), st1)))"

text \<open>The reply of \<open>/status\<close>: \<open>head_commit\<close>, \<open>changed_files\<close>, \<open>has_changes\<close>.\<close>

definition status_handler ::
  "tools \<Rightarrow> string \<Rightarrow> commit_id option \<Rightarrow> vault
     \<Rightarrow> (commit_id option \<times> path list \<times> bool) reply \<times> vault" where
  "status_handler T vaultName since st =
     (if \<not> validateVaultName vaultName then (Err400 ''Invalid vault name'', st)
      else (let ((headCommit, changedFiles), st1) = getChangesSince T vaultName since (initVaultGit st)
            in (Ok200 (headCommit, changedFiles, changedFiles \<noteq> []), st1)))"

text \<open>The reply of \<open>/file/*\<close>: the content and the headers \<open>X-File-Commit\<close>, \<open>X-File-Hash\<close>.\<close>

definition file_handler ::
  "tools \<Rightarrow> string \<Rightarrow> path \<Rightarrow> vault \<Rightarrow> (blob \<times> commit_id option \<times> hash) reply \<times> vault" where
  "file_handler T vaultName filePath st =
     (if \<not> validateVaultName vaultName then (Err400 ''Invalid vault name'', st)
      else case getFileRecord T vaultName filePath st of
        (None, st1) \<Rightarrow> (Err404 ''File not found'', st1)
      | (Some record, st1) \<Rightarrow>
          (case getCurrentFile vaultName filePath st1 of
             None \<Rightarrow> (Err404 ''File not found on disk'', st1)
           | Some content \<Rightarrow> (Ok200 (content, rec_commit record, rec_hash record), st1)))"

text \<open>
  The block that follows each of the three calls of \<open>mergeFile\<close> in the \<open>/sync\<close> handler
  (the same statements each time, with another base).
\<close>

definition merge_and_reply ::
  "tools \<Rightarrow> string \<Rightarrow> path \<Rightarrow> commit_id option \<Rightarrow> blob \<Rightarrow> blob \<Rightarrow> blob \<Rightarrow> vault
     \<Rightarrow> sync_response reply \<times> vault" where
  "merge_and_reply T vaultName filePath headCommit base clientContent serverContent st =
     (case mergeFile T base clientContent serverContent of
        Inl e \<Rightarrow> (Err500 e, st)
      | Inr (mergedBytes, hasConflicts) \<Rightarrow>
          (let mergedHash = sha256 T mergedBytes
           in if hasConflicts
              then (let (fid, st1) = ensureFileId vaultName filePath (Some mergedHash) headCommit st
                    in (Ok200 \<lparr>sr_success = True, sr_commit = headCommit, sr_hash = mergedHash,
                               sr_file_id = fid, sr_merged = True, sr_has_conflicts = True,
                               sr_merged_content = Some mergedBytes\<rparr>, st1))
              else case commitFile T vaultName filePath mergedBytes (''Merge '' @ filePath) st of
                     (Inl e, st1) \<Rightarrow> (Err500 e, st1)
                   | (Inr commit, st1) \<Rightarrow>
                       (let (fid, st2) = ensureFileId vaultName filePath (Some mergedHash) commit st1
                        in (Ok200 \<lparr>sr_success = True, sr_commit = commit, sr_hash = mergedHash,
                                   sr_file_id = fid, sr_merged = True, sr_has_conflicts = False,
                                   sr_merged_content = Some mergedBytes\<rparr>, st2))))"

text \<open>The direct commits of the \<open>/sync\<close> handler: a new file, and the fast-forward.\<close>

definition commit_and_reply ::
  "tools \<Rightarrow> string \<Rightarrow> path \<Rightarrow> blob \<Rightarrow> string \<Rightarrow> vault \<Rightarrow> sync_response reply \<times> vault" where
  "commit_and_reply T vaultName filePath clientContent msg st =
     (case commitFile T vaultName filePath clientContent msg st of
        (Inl e, st1) \<Rightarrow> (Err500 e, st1)
      | (Inr commit, st1) \<Rightarrow>
          (let (fid, st2) = ensureFileId vaultName filePath (Some (sha256 T clientContent)) commit st1
           in (Ok200 \<lparr>sr_success = True, sr_commit = commit, sr_hash = sha256 T clientContent,
                      sr_file_id = fid, sr_merged = False, sr_has_conflicts = False,
                      sr_merged_content = None\<rparr>, st2)))"

definition sync_handler ::
  "tools \<Rightarrow> string \<Rightarrow> path \<Rightarrow> string option \<Rightarrow> commit_id option \<Rightarrow> vault
     \<Rightarrow> sync_response reply \<times> vault" where
  "sync_handler T vaultName filePath base64Content base_commit st =
     (if \<not> validateVaultName vaultName then (Err400 ''Invalid vault name'', st)
      else case base64Content of
        None \<Rightarrow> (Err400 ''Missing path or content'', st)
      | Some bytes \<Rightarrow>
          (if filePath = [] then (Err400 ''Missing path or content'', st)
           else
             (let st0 = initVaultGit st;
                  clientContent = Raw bytes;
                  clientHash = sha256 T clientContent;
                  headCommit = getHeadCommit st0
              in case getCurrentFile vaultName filePath st0 of
                   None \<Rightarrow>
                     commit_and_reply T vaultName filePath clientContent (''Add '' @ filePath) st0
                 | Some serverContent \<Rightarrow>
                     (if base_commit \<noteq> None \<and> base_commit = headCommit
                      then commit_and_reply T vaultName filePath clientContent
                             (''Update '' @ filePath) st0
                      else case base_commit of
                        None \<Rightarrow>
                          (if clientHash = sha256 T serverContent
                           then (let (record, st1) = getFileRecord T vaultName filePath st0;
                                     c = (case (case record of None \<Rightarrow> None | Some r \<Rightarrow> rec_commit r) of
                                            Some k \<Rightarrow> Some k
                                          | None \<Rightarrow> headCommit);
                                     (fid, st2) = ensureFileId vaultName filePath (Some clientHash) c st1
                                 in (Ok200 \<lparr>sr_success = True, sr_commit = c, sr_hash = clientHash,
                                            sr_file_id = fid, sr_merged = False,
                                            sr_has_conflicts = False, sr_merged_content = None\<rparr>,
                                     st2))
                           else merge_and_reply T vaultName filePath headCommit
                                  serverContent clientContent serverContent st0)
                      | Some base \<Rightarrow>
                          (case getFileAtCommit vaultName filePath base st0 of
                             None \<Rightarrow>
                               merge_and_reply T vaultName filePath headCommit
                                 (Raw []) clientContent serverContent st0
                           | Some baseContent \<Rightarrow>
                               merge_and_reply T vaultName filePath headCommit
                                 baseContent clientContent serverContent st0)))))"

record V2SyncResponse =
  v2_success :: bool
  results :: "OperationResult list"
  head_commit :: "commit_id option"

text \<open>
  The replies of \<open>/sync/v2\<close>: 400 with an error only, 400 with the partial results (the
  text \<open>Operation i failed: e\<close> kept as \<open>i\<close> and \<open>e\<close>), and 200.
\<close>

datatype v2_reply =
    V2Invalid string
  | V2Failed V2SyncResponse nat "string option"
  | V2Ok V2SyncResponse

fun http_status :: "v2_reply \<Rightarrow> nat" where
  "http_status (V2Invalid _) = 400"
| "http_status (V2Failed _ _ _) = 400"
| "http_status (V2Ok _) = 200"

fun v2_body :: "v2_reply \<Rightarrow> V2SyncResponse option" where
  "v2_body (V2Invalid _) = None"
| "v2_body (V2Failed b _ _) = Some b"
| "v2_body (V2Ok b) = Some b"

text \<open>The \<open>for\<close> loop of the handler, from index \<open>i\<close> on, with the results so far.\<close>

fun v2_loop ::
  "tools \<Rightarrow> string \<Rightarrow> bool \<Rightarrow> commit_id option \<Rightarrow> SyncOperation list \<Rightarrow> nat
     \<Rightarrow> OperationResult list \<Rightarrow> vault \<Rightarrow> v2_reply \<times> vault" where
  "v2_loop T vaultName atomic startCommit [] i rs st =
     (V2Ok \<lparr>v2_success = list_all success rs, results = rs, head_commit = getHeadCommit st\<rparr>, st)"
| "v2_loop T vaultName atomic startCommit (op # ops) i rs st =
     (if op_type op = [] \<or> op_path op = []
      then (let rs1 = rs @ [failed i ''Operation requires type and path'']
            in if atomic
               then (V2Failed \<lparr>v2_success = False, results = rs1, head_commit = startCommit\<rparr>
                       i (Some ''Operation requires type and path''), st)
               else v2_loop T vaultName atomic startCommit ops (Suc i) rs1 st)
      else (let (result, st1) = processOperation T vaultName op i st;
                rs1 = rs @ [result]
            in if \<not> success result \<and> atomic
               then (V2Failed \<lparr>v2_success = False, results = rs1, head_commit = startCommit\<rparr>
                       i (error result), st1)
               else v2_loop T vaultName atomic startCommit ops (Suc i) rs1 st1))"

definition sync_v2_handler ::
  "tools \<Rightarrow> string \<Rightarrow> SyncOperation list \<Rightarrow> bool option \<Rightarrow> vault \<Rightarrow> v2_reply \<times> vault" where
  "sync_v2_handler T vaultName operations atomic_opt st =
     (let atomic = (case atomic_opt of None \<Rightarrow> True | Some a \<Rightarrow> a)
      in if \<not> validateVaultName vaultName then (V2Invalid ''Invalid vault name'', st)
         else if operations = [] then (V2Invalid ''operations array is required'', st)
         else (let st0 = initVaultGit st;
                   startCommit = getHeadCommit st0
               in v2_loop T vaultName atomic startCommit operations 0 [] st0))"

definition delete_handler ::
  "tools \<Rightarrow> string \<Rightarrow> path \<Rightarrow> vault \<Rightarrow> commit_id option reply \<times> vault" where
  "delete_handler T vaultName filePath st =
     (if \<not> validateVaultName vaultName then (Err400 ''Invalid vault name'', st)
      else (let st1 = (case getFileByPath vaultName filePath st of
                         None \<Rightarrow> st
                       | Some metadata \<Rightarrow> snd (softDeleteFile vaultName (file_id metadata) st));
                (deleted, st2) = deleteFile T vaultName filePath st1
            in if \<not> deleted then (Err404 ''File not found'', st2)
               else (Ok200 (getHeadCommit st2), st2)))"

definition detect_rename_handler ::
  "tools \<Rightarrow> string \<Rightarrow> path \<Rightarrow> hash \<Rightarrow> file_id option \<Rightarrow> vault \<Rightarrow> detect_result reply \<times> vault" where
  "detect_rename_handler T vaultName missing_path missing_hash fid st =
     (if \<not> validateVaultName vaultName then (Err400 ''Invalid vault name'', st)
      else if missing_path = [] \<or> missing_hash = []
      then (Err400 ''Missing required fields: missing_path, missing_hash'', st)
      else (let (result, st1) = detectRename T vaultName missing_path missing_hash fid st
            in (Ok200 result, st1)))"

text \<open>The reply of \<open>/rename\<close>: \<open>commit\<close>, \<open>file_id\<close>, \<open>hash\<close>.\<close>

definition rename_handler ::
  "tools \<Rightarrow> string \<Rightarrow> file_id option \<Rightarrow> path \<Rightarrow> path \<Rightarrow> string option \<Rightarrow> vault
     \<Rightarrow> (commit_id option \<times> file_id option \<times> hash option) reply \<times> vault" where
  "rename_handler T vaultName fid_opt oldPath newPath content st =
     (if \<not> validateVaultName vaultName then (Err400 ''Invalid vault name'', st)
      else case fid_opt of
        None \<Rightarrow> (Err400 ''Missing required fields: file_id, old_path, new_path'', st)
      | Some fid \<Rightarrow>
          (if oldPath = [] \<or> newPath = []
           then (Err400 ''Missing required fields: file_id, old_path, new_path'', st)
           else (let newContent = (if truthy_str content then map_option Raw content else None);
                     (result, st1) = renameFile T vaultName fid oldPath newPath newContent st
                 in if \<not> rn_success result
                    then (Err400 (case rn_error result of None \<Rightarrow> [] | Some e \<Rightarrow> e), st1)
                    else (let (record, st2) = getFileRecord T vaultName newPath st1
                          in (Ok200 (rn_commit result, map_option rec_file_id record,
                                     map_option rec_hash record), st2)))))"

text \<open>
  The reply of \<open>/file-by-id/:fileId\<close>: the content and the headers \<open>X-File-Id\<close>,
  \<open>X-File-Path\<close>, \<open>X-File-Commit\<close>, \<open>X-File-Hash\<close>.
\<close>

definition file_by_id_handler ::
  "tools \<Rightarrow> string \<Rightarrow> file_id \<Rightarrow> vault \<Rightarrow> (blob \<times> FileRecord) reply \<times> vault" where
  "file_by_id_handler T vaultName fid st =
     (if \<not> validateVaultName vaultName then (Err400 ''Invalid vault name'', st)
      else case (case getFileById vaultName fid st of
                   None \<Rightarrow> None
                 | Some m \<Rightarrow> if truthy_num (deleted_at m) then None else Some m) of
        None \<Rightarrow> (Err404 ''File not found'', st)
      | Some fileMeta \<Rightarrow>
          (case getFileRecord T vaultName (current_path fileMeta) st of
             (None, st1) \<Rightarrow> (Err404 ''File not found on disk'', st1)
           | (Some record, st1) \<Rightarrow>
               (case getCurrentFile vaultName (current_path fileMeta) st1 of
                  None \<Rightarrow> (Err404 ''File content not found'', st1)
                | Some content \<Rightarrow> (Ok200 (content, record), st1))))"

section \<open>Real-time updates (\<open>yjs-sync.ts\<close>)\<close>

text \<open>
  \<open>handleYjsUpdate\<close>, called for a \<open>yjs-update\<close> frame that has a \<open>fileId\<close> and a payload.
  The broadcast to the other sockets changes neither store and is left out.
\<close>

definition handleYjsUpdate ::
  "tools \<Rightarrow> string \<Rightarrow> file_id \<Rightarrow> string \<Rightarrow> vault \<Rightarrow> (bool \<times> string option) \<times> vault" where
  "handleYjsUpdate T vaultName fid update st =
     (case yjs_apply T (map_of (yjs_documents st) fid) update of
        None \<Rightarrow> ((False, Some (error_message YjsFailed)), st)
      | Some doc \<Rightarrow>
          (let st1 = st\<lparr>yjs_documents := AList.update fid doc (yjs_documents st)\<rparr>;
               content = yjs_text T doc
           in case getFileById vaultName fid st1 of
                None \<Rightarrow> ((False, Some ''File metadata not found''), st1)
              | Some fileMeta \<Rightarrow>
                  (case commitFile T vaultName (current_path fileMeta) (Raw content)
                          (''Update '' @ current_path fileMeta @ '' via real-time sync'') st1 of
                     (Inl e, st2) \<Rightarrow> ((False, Some (error_message e)), st2)
                   | (Inr _, st2) \<Rightarrow> ((True, None), st2))))"

section \<open>Example vault and tools\<close>

text \<open>
  A concrete vault, concrete tools and concrete requests, on which the theorems below are
  instantiated. The example merge takes a side that alone changed the base and reports a
  conflict when both sides changed it differently. The example ignore rules are those of
  the ignore file that \<open>initVaultGit\<close> writes, for as long as it is the one on disk; the
  example rename detection pairs a path that disappeared with a path that appeared with the
  same bytes.
\<close>

definition example_ignores :: "(path \<times> blob) list \<Rightarrow> path \<Rightarrow> bool" where
  "example_ignores wt p \<longleftrightarrow>
     map_of wt ''.gitignore'' = Some gitignore \<and>
     (p \<in> {''.DS_Store'', ''Thumbs.db'', ''.scion/metadata.db'', ''.scion/metadata.db-wal'',
            ''.scion/metadata.db-shm''}
      \<or> (\<exists>d \<in> {''.DS_Store'', ''Thumbs.db''}.
            drop (length p - Suc (length d)) p = CHR ''/'' # d))"

definition example_tools :: tools where
  "example_tools = \<lparr>sha256 = (\<lambda>b. case b of Raw s \<Rightarrow> ''sha:'' @ s | ManifestJson m \<Rightarrow> ''sha:manifest''),
     merge_tool = (\<lambda>base local remote.
        if local = remote then Clean local
        else if base = remote then Clean local
        else if base = local then Clean remote
        else Conflicts (Raw ''<<<<<<< LOCAL'')),
     yjs_apply = (\<lambda>doc update. Some update),
     yjs_text = (\<lambda>doc. doc),
     ignores = example_ignores,
     rename_sources = (\<lambda>gone come. map fst (filter (\<lambda>(p, x). x \<in> snd ` set come) gone))\<rparr>"

definition empty_vault :: vault where
  "empty_vault = \<lparr>git_dir = False, worktree = [], staged = [], branch = [], dangling = [],
     files = [], path_history = [], next_uuid = 0, yjs_documents = [], now = 100\<rparr>"

definition example_batch :: "SyncOperation list" where
  "example_batch =
     [\<lparr>op_type = ''create'', op_path = ''a.md'', op_file_id = None, op_old_path = None,
        op_content = Some ''A'', op_base_commit = None\<rparr>,
      \<lparr>op_type = ''modify'', op_path = ''x.md'', op_file_id = Some 7, op_old_path = None,
        op_content = Some ''X'', op_base_commit = None\<rparr>,
      \<lparr>op_type = ''create'', op_path = ''b.md'', op_file_id = None, op_old_path = None,
        op_content = Some ''B'', op_base_commit = None\<rparr>]"

definition deleted_row :: FileMetadata where
  "deleted_row = \<lparr>file_id = 0, vault_id = ''V'', current_path = ''a.md'',
     content_hash = Some ''sha:A'', git_commit = Some 1, created_at = 10, updated_at = 20,
     deleted_at = Some 20\<rparr>"

text \<open>
  Scenario S4 of the specification: a file is created, client A replaces its line with a
  fast-forward, and client B, still holding the first commit, sends another line.
\<close>

definition conflict_vault :: vault where
  "conflict_vault =
     snd (sync_handler example_tools ''V'' ''n.md'' (Some ''A edited this line'') (Some 1)
       (snd (sync_handler example_tools ''V'' ''n.md'' (Some ''Original line'') None empty_vault)))"

definition conflicting_modify :: SyncOperation where
  "conflicting_modify = \<lparr>op_type = ''modify'', op_path = ''n.md'', op_file_id = Some 0,
     op_old_path = None, op_content = Some ''B edited this line'', op_base_commit = Some 1\<rparr>"

text \<open>
  Scenario S5 of the specification: \<open>old.md\<close> is created (commit 1, \<open>file_id\<close> 0) and
  then renamed to \<open>new.md\<close> through \<open>/rename\<close>.
\<close>

definition created_vault :: vault where
  "created_vault =
     snd (sync_handler example_tools ''V'' ''old.md'' (Some ''hello'') None empty_vault)"

definition renamed_vault :: vault where
  "renamed_vault =
     snd (rename_handler example_tools ''V'' (Some 0) ''old.md'' ''new.md'' None created_vault)"

text \<open>
  Two files with the same bytes, \<open>a.md\<close> (\<open>file_id\<close> 0) and \<open>c.md\<close> (\<open>file_id\<close> 1);
  then \<open>a.md\<close> is renamed to \<open>b.md\<close>.
\<close>

definition twins_vault :: vault where
  "twins_vault =
     snd (rename_handler example_tools ''V'' (Some 0) ''a.md'' ''b.md'' None
       (snd (sync_handler example_tools ''V'' ''c.md'' (Some ''same'') None
         (snd (sync_handler example_tools ''V'' ''a.md'' (Some ''same'') None empty_vault)))))"

text \<open>
  The file of scenario S5 is deleted through a Delete operation at time 100; the same
  Delete is sent again 100 seconds later.
\<close>

definition delete_op :: SyncOperation where
  "delete_op = \<lparr>op_type = ''delete'', op_path = ''old.md'', op_file_id = Some 0,
     op_old_path = None, op_content = None, op_base_commit = None\<rparr>"

definition deleted_vault :: vault where
  "deleted_vault = (snd (processOperation example_tools ''V'' delete_op 0 created_vault))\<lparr>now := 200\<rparr>"

text \<open>
  The vault of scenario S4 after one more upload, of a file whose name starts with the two
  bytes of the letter e with an acute accent in UTF-8.
\<close>

definition accent_md :: path where
  "accent_md = [CHR 0xC3, CHR 0xA9] @ ''.md''"

definition accent_vault :: vault where
  "accent_vault =
     snd (sync_handler example_tools ''V'' accent_md (Some ''bonjour'') None conflict_vault)"

section \<open>Requests\<close>

text \<open>
  What a client can send to one vault: the HTTP requests of \<open>server.ts\<close>, and a
  \<open>yjs-update\<close> frame with a \<open>fileId\<close> and a payload on a socket of the vault (the
  socket is refused when the vault name is invalid). \<open>structure-update\<close> and
  \<open>binary-update\<close> frames reach neither the content store nor the identity store.
  \<open>ClockTick\<close> is time passing between two requests.
\<close>

datatype request =
    GetManifest
  | GetStatus "commit_id option"
  | GetFile path
  | GetFileById file_id
  | PostSync path "string option" "commit_id option"
  | PostSyncV2 "SyncOperation list" "bool option"
  | DeleteFile path
  | PostDetectRename path hash "file_id option"
  | PostRename "file_id option" path path "string option"
  | YjsUpdate file_id string
  | ClockTick nat

fun serve :: "tools \<Rightarrow> string \<Rightarrow> request \<Rightarrow> vault \<Rightarrow> vault" where
  "serve T v GetManifest st = snd (manifest_handler T v st)"
| "serve T v (GetStatus since) st = snd (status_handler T v since st)"
| "serve T v (GetFile p) st = snd (file_handler T v p st)"
| "serve T v (GetFileById i) st = snd (file_by_id_handler T v i st)"
| "serve T v (PostSync p content base) st = snd (sync_handler T v p content base st)"
| "serve T v (PostSyncV2 ops atomic) st = snd (sync_v2_handler T v ops atomic st)"
| "serve T v (DeleteFile p) st = snd (delete_handler T v p st)"
| "serve T v (PostDetectRename p h i) st = snd (detect_rename_handler T v p h i st)"
| "serve T v (PostRename i oldp newp content) st = snd (rename_handler T v i oldp newp content st)"
| "serve T v (YjsUpdate i update) st =
     (if validateVaultName v then snd (handleYjsUpdate T v i update st) else st)"
| "serve T v (ClockTick t) st = st\<lparr>now := t\<rparr>"

definition run :: "tools \<Rightarrow> string \<Rightarrow> request list \<Rightarrow> vault \<Rightarrow> vault" where
  "run T v reqs st = foldl (\<lambda>s r. serve T v r s) st reqs"

text \<open>
  After the deletion a client that still holds the old \<open>file_id\<close> sends a
  \<open>yjs-update\<close> frame for it, the manifest is read, and the client sends its Delete
  operation for the old \<open>file_id\<close> once more. Then a Create operation for \<open>old.md\<close>
  arrives.
\<close>

definition stale_requests :: "request list" where
  "stale_requests = [YjsUpdate 0 ''new text'', GetManifest, PostSyncV2 [delete_op] None]"

definition create_again :: SyncOperation where
  "create_again = \<lparr>op_type = ''create'', op_path = ''old.md'', op_file_id = None,
     op_old_path = None, op_content = Some ''again'', op_base_commit = None\<rparr>"
section \<open>Auxiliary notions\<close>

text \<open>Two vaults hold the same files on disk, the manifest file apart.\<close>

definition wt_agree :: "vault \<Rightarrow> vault \<Rightarrow> bool" where
  "wt_agree a b \<longleftrightarrow> (\<forall>p. p \<noteq> manifest_path \<longrightarrow> map_of (worktree a) p = map_of (worktree b) p)"

text \<open>
  The identity of \<open>f\<close> is soft-deleted: it has a row, and every row with this \<open>file_id\<close>
  has \<open>deleted_at\<close> set. The identifiers handed out so far are below the counter of
  \<open>uuidv4\<close>.
\<close>

definition soft_deleted :: "file_id \<Rightarrow> vault \<Rightarrow> bool" where
  "soft_deleted f st \<longleftrightarrow>
     (\<exists>r \<in> set (files st). file_id r = f) \<and>
     (\<forall>r \<in> set (files st). file_id r = f \<longrightarrow> deleted_at r \<noteq> None)"

definition uuids_fresh :: "vault \<Rightarrow> bool" where
  "uuids_fresh st \<longleftrightarrow> (\<forall>r \<in> set (files st). file_id r < next_uuid st)"

definition stays_deleted :: "file_id \<Rightarrow> vault \<Rightarrow> bool" where
  "stays_deleted f st \<longleftrightarrow> soft_deleted f st \<and> uuids_fresh st"

text \<open>
  A plain name: printable ASCII characters without double quote and backslash, and no space
  at either end. Git prints such a name as it is.
\<close>

definition plain_char :: "char \<Rightarrow> bool" where
  "plain_char c \<longleftrightarrow> 32 \<le> (of_char c :: nat) \<and> (of_char c :: nat) < 127 \<and> c \<noteq> dquote \<and> c \<noteq> backslash"

definition plain_name :: "path \<Rightarrow> bool" where
  "plain_name p \<longleftrightarrow> p \<noteq> [] \<and> list_all plain_char p \<and> hd p \<noteq> CHR '' '' \<and> last p \<noteq> CHR '' ''"

section \<open>What the identity store leaves alone\<close>

lemma updateGitManifest_frame [simp]:
  "git_dir (updateGitManifest v st) = git_dir st"
  "staged (updateGitManifest v st) = staged st"
  "branch (updateGitManifest v st) = branch st"
  "dangling (updateGitManifest v st) = dangling st"
  "files (updateGitManifest v st) = files st"
  "path_history (updateGitManifest v st) = path_history st"
  "next_uuid (updateGitManifest v st) = next_uuid st"
  "now (updateGitManifest v st) = now st"
  by (simp_all add: updateGitManifest_def Let_def)

lemma updateFileRecord_frame [simp]:
  "git_dir (snd (updateFileRecord v f u st)) = git_dir st"
  "staged (snd (updateFileRecord v f u st)) = staged st"
  "branch (snd (updateFileRecord v f u st)) = branch st"
  "dangling (snd (updateFileRecord v f u st)) = dangling st"
  "path_history (snd (updateFileRecord v f u st)) = path_history st"
  "next_uuid (snd (updateFileRecord v f u st)) = next_uuid st"
  "now (snd (updateFileRecord v f u st)) = now st"
  by (simp_all add: updateFileRecord_def Let_def)

lemma createFileRecord_frame [simp]:
  "git_dir (snd (createFileRecord v p h c st)) = git_dir st"
  "staged (snd (createFileRecord v p h c st)) = staged st"
  "branch (snd (createFileRecord v p h c st)) = branch st"
  "dangling (snd (createFileRecord v p h c st)) = dangling st"
  "path_history (snd (createFileRecord v p h c st)) = path_history st"
  "now (snd (createFileRecord v p h c st)) = now st"
  by (simp_all add: createFileRecord_def Let_def)

lemma ensureFileId_frame [simp]:
  "git_dir (snd (ensureFileId v p h c st)) = git_dir st"
  "staged (snd (ensureFileId v p h c st)) = staged st"
  "branch (snd (ensureFileId v p h c st)) = branch st"
  "dangling (snd (ensureFileId v p h c st)) = dangling st"
  "path_history (snd (ensureFileId v p h c st)) = path_history st"
  "now (snd (ensureFileId v p h c st)) = now st"
  by (simp_all add: ensureFileId_def Let_def case_prod_beta split: option.splits)

lemma getHeadCommit_cong:
  "git_dir a = git_dir b \<Longrightarrow> branch a = branch b \<Longrightarrow> getHeadCommit a = getHeadCommit b"
  by (simp add: getHeadCommit_def)

lemma initVaultGit_id: "git_dir st \<Longrightarrow> initVaultGit st = st"
  by (simp add: initVaultGit_def)


lemma git_dir_initVaultGit [simp]: "git_dir (initVaultGit st)"
  by (simp add: initVaultGit_def)

lemma getFileRecord_frame [simp]:
  "git_dir (snd (getFileRecord T v p st)) = git_dir st"
  "staged (snd (getFileRecord T v p st)) = staged st"
  "branch (snd (getFileRecord T v p st)) = branch st"
  "dangling (snd (getFileRecord T v p st)) = dangling st"
  by (simp_all add: getFileRecord_def Let_def case_prod_beta split: option.splits)

section \<open>Lookups of the identity store\<close>

lemma find_by_id_distinct:
  "distinct (map file_id xs) \<Longrightarrow> r \<in> set xs \<Longrightarrow> find (\<lambda>x. file_id x = file_id r) xs = Some r"
  by (induction xs) (auto simp: image_iff)

text \<open>
  C9, as the code has it: \<open>getFileByPath\<close> returns only a row that is not soft-deleted, and
  returns nothing for a path whose rows are all soft-deleted; \<open>getFileById\<close> selects by
  \<open>file_id\<close> alone (the primary key) and returns the row whether or not \<open>deleted_at\<close> is
  set. Some of its callers (\<open>processModify\<close>, \<open>detectRename\<close>, the handler of
  \<open>/file-by-id\<close>) test \<open>deleted_at\<close> themselves.
\<close>

theorem lookups_and_soft_delete:
  "(getFileByPath v p st = Some r \<longrightarrow>
      deleted_at r = None \<and> current_path r = p \<and> vault_id r = v \<and> r \<in> set (files st)) \<and>
   ((\<forall>x \<in> set (files st). vault_id x = v \<and> current_path x = p \<longrightarrow> deleted_at x \<noteq> None) \<longrightarrow>
      getFileByPath v p st = None) \<and>
   (distinct (map file_id (files st)) \<and> r \<in> set (files st) \<longrightarrow>
      getFileById v (file_id r) st = Some r)"
proof -
  have a: "getFileByPath v p st = Some r \<longrightarrow>
      deleted_at r = None \<and> current_path r = p \<and> vault_id r = v \<and> r \<in> set (files st)"
    unfolding getFileByPath_def by (auto simp: find_Some_iff)
  have b: "(\<forall>x \<in> set (files st). vault_id x = v \<and> current_path x = p \<longrightarrow> deleted_at x \<noteq> None) \<longrightarrow>
      getFileByPath v p st = None"
    unfolding getFileByPath_def by (auto simp: find_None_iff)
  have c: "distinct (map file_id (files st)) \<and> r \<in> set (files st) \<longrightarrow>
      getFileById v (file_id r) st = Some r"
    unfolding getFileById_def using find_by_id_distinct by blast
  from a b c show ?thesis by blast
qed

theorem lookups_and_soft_delete_witness:
  "getFileByPath ''V'' ''a.md'' (empty_vault\<lparr>files := [deleted_row]\<rparr>) = None
   \<and> getFileById ''V'' 0
        (empty_vault\<lparr>files := [deleted_row\<lparr>deleted_at := None\<rparr>, deleted_row\<lparr>file_id := 1\<rparr>]\<rparr>)
       = Some (deleted_row\<lparr>deleted_at := None\<rparr>)
   \<and> getFileByPath ''V'' ''a.md''
        (empty_vault\<lparr>files := [deleted_row\<lparr>deleted_at := None\<rparr>, deleted_row\<lparr>file_id := 1\<rparr>]\<rparr>)
       = Some (deleted_row\<lparr>deleted_at := None\<rparr>)"
  using lookups_and_soft_delete [of "''V''" "''a.md''" "empty_vault\<lparr>files := [deleted_row]\<rparr>" deleted_row]
    lookups_and_soft_delete [of "''V''" "''a.md''"
      "empty_vault\<lparr>files := [deleted_row\<lparr>deleted_at := None\<rparr>, deleted_row\<lparr>file_id := 1\<rparr>]\<rparr>"
      "deleted_row\<lparr>deleted_at := None\<rparr>"]
  by (simp add: empty_vault_def deleted_row_def getFileByPath_def)

text \<open>
  The claim as stated fails: the only row with \<open>file_id\<close> 0 is soft-deleted, and
  \<open>getFileById\<close> returns it.
\<close>

theorem get_by_id_returns_deleted:
  "getFileById ''V'' 0 (empty_vault\<lparr>files := [deleted_row]\<rparr>) = Some deleted_row
   \<and> deleted_at deleted_row = Some 20"
  by (simp add: getFileById_def empty_vault_def deleted_row_def)

section \<open>The atomic batch\<close>

lemma take_snoc_prefix:
  assumes "take (length (rs @ [r])) xs = rs @ [r]"
  shows "take (length rs) xs = rs"
proof -
  have "take (length rs) xs = take (length rs) (take (length (rs @ [r])) xs)"
    by (simp add: min_def)
  also have "\<dots> = rs" using assms by simp
  finally show ?thesis .
qed

lemma v2_loop_nonatomic_shape:
  "\<exists>full st'. v2_loop T v False sc ops i rs st = (V2Ok full, st')
      \<and> take (length rs) (results full) = rs
      \<and> length (results full) = length rs + length ops"
proof (induction ops arbitrary: i rs st)
  case Nil
  then show ?case by simp
next
  case (Cons op ops)
  show ?case
  proof (cases "op_type op = [] \<or> op_path op = []")
    case True
    from Cons.IH [of "Suc i" "rs @ [failed i ''Operation requires type and path'']" st]
    obtain full st' where
      h: "v2_loop T v False sc ops (Suc i) (rs @ [failed i ''Operation requires type and path'']) st
            = (V2Ok full, st')"
         "take (length (rs @ [failed i ''Operation requires type and path''])) (results full)
            = rs @ [failed i ''Operation requires type and path'']"
         "length (results full) = length (rs @ [failed i ''Operation requires type and path'']) + length ops"
      by blast
    from h(2) have "take (length rs) (results full) = rs"
      by (rule take_snoc_prefix)
    with h True show ?thesis by (simp add: Let_def)
  next
    case False
    obtain result st1 where p: "processOperation T v op i st = (result, st1)"
      by (cases "processOperation T v op i st")
    from Cons.IH [of "Suc i" "rs @ [result]" st1]
    obtain full st' where
      h: "v2_loop T v False sc ops (Suc i) (rs @ [result]) st1 = (V2Ok full, st')"
         "take (length (rs @ [result])) (results full) = rs @ [result]"
         "length (results full) = length (rs @ [result]) + length ops"
      by blast
    from h(2) have "take (length rs) (results full) = rs"
      by (rule take_snoc_prefix)
    with h False p show ?thesis by (simp add: Let_def)
  qed
qed


lemma v2_loop_atomic_first_failure:
  assumes "v2_loop T v False sc ops i rs st = (V2Ok full, st')"
    and "length rs \<le> n" and "n < length (results full)"
    and "\<not> success (results full ! n)"
    and "\<forall>j. length rs \<le> j \<and> j < n \<longrightarrow> success (results full ! j)"
  shows "\<exists>e st''. v2_loop T v True sc ops i rs st =
            (V2Failed \<lparr>v2_success = False, results = take (Suc n) (results full), head_commit = sc\<rparr>
               (i + (n - length rs)) e, st'')
          \<and> v2_loop T v True sc (take (Suc (n - length rs)) ops) i rs st =
              v2_loop T v True sc ops i rs st"
  using assms
proof (induction ops arbitrary: i rs st)
  case Nil
  then show ?case by auto
next
  case (Cons op ops)
  define r where "r = (if op_type op = [] \<or> op_path op = []
                       then failed i ''Operation requires type and path''
                       else fst (processOperation T v op i st))"
  define st1 where "st1 = (if op_type op = [] \<or> op_path op = [] then st
                           else snd (processOperation T v op i st))"
  have na: "v2_loop T v False sc (op # ops) i rs st = v2_loop T v False sc ops (Suc i) (rs @ [r]) st1"
    by (simp add: r_def st1_def Let_def split: prod.splits)
  have at: "v2_loop T v True sc (op # ops) i rs st =
      (if \<not> success r
       then (V2Failed \<lparr>v2_success = False, results = rs @ [r], head_commit = sc\<rparr> i
               (if op_type op = [] \<or> op_path op = [] then Some ''Operation requires type and path''
                else error r), st1)
       else v2_loop T v True sc ops (Suc i) (rs @ [r]) st1)"
    by (simp add: r_def st1_def Let_def failed_def split: prod.splits)
  have at': "\<And>k. v2_loop T v True sc (take (Suc k) (op # ops)) i rs st =
      (if \<not> success r
       then (V2Failed \<lparr>v2_success = False, results = rs @ [r], head_commit = sc\<rparr> i
               (if op_type op = [] \<or> op_path op = [] then Some ''Operation requires type and path''
                else error r), st1)
       else v2_loop T v True sc (take k ops) (Suc i) (rs @ [r]) st1)"
    by (simp add: r_def st1_def Let_def failed_def split: prod.splits)
  from Cons.prems(1) na have rec: "v2_loop T v False sc ops (Suc i) (rs @ [r]) st1 = (V2Ok full, st')"
    by simp
  from v2_loop_nonatomic_shape [of T v sc ops "Suc i" "rs @ [r]" st1] rec
  have pre: "take (length (rs @ [r])) (results full) = rs @ [r]"
    by auto
  then have pre0: "take (length rs) (results full) = rs" by (rule take_snoc_prefix)
  from pre have at_r: "results full ! length rs = r"
    by (metis length_append_singleton lessI nth_append_length nth_take)
  show ?case
  proof (cases "n = length rs")
    case True
    with Cons.prems(4) at_r have "\<not> success r" by simp
    moreover from True pre have "take (Suc n) (results full) = rs @ [r]" by simp
    ultimately show ?thesis using True at at' [of 0] by simp
  next
    case False
    with Cons.prems(2) have lt: "length rs < n" by simp
    with Cons.prems(5) at_r have ok: "success r" by auto
    have "\<exists>e st''. v2_loop T v True sc ops (Suc i) (rs @ [r]) st1 =
            (V2Failed \<lparr>v2_success = False, results = take (Suc n) (results full), head_commit = sc\<rparr>
               (Suc i + (n - length (rs @ [r]))) e, st'')
          \<and> v2_loop T v True sc (take (Suc (n - length (rs @ [r]))) ops) (Suc i) (rs @ [r]) st1 =
              v2_loop T v True sc ops (Suc i) (rs @ [r]) st1"
      using Cons.IH [OF rec] lt Cons.prems(3,4,5) by simp
    moreover have "Suc i + (n - length (rs @ [r])) = i + (n - length rs)"
      using lt by simp
    moreover have "Suc (n - length rs) = Suc (Suc (n - length (rs @ [r])))"
      using lt by simp
    ultimately show ?thesis using ok at at' [of "Suc (n - length (rs @ [r]))"] by simp
  qed
qed

text \<open>
  C2: in a batch with \<open>atomic = true\<close> (the default), when operation \<open>i\<close> is the first whose
  result is a failure (the per-operation results being those of the same batch run with
  \<open>atomic = false\<close>), the reply is HTTP 400, its \<open>results\<close> are the results of operations
  \<open>0\<close> to \<open>i\<close>, its \<open>head_commit\<close> is the head recorded before the batch, and
  the operations after \<open>i\<close> are not processed: the batch cut after \<open>i\<close> gives the same
  reply and the same vault.
\<close>

theorem atomic_batch_stops_at_first_failure:
  assumes "validateVaultName v" and "ops \<noteq> []"
    and "v2_body (fst (sync_v2_handler T v ops (Some False) st)) = Some full"
    and "i < length (results full)"
    and "\<not> success (results full ! i)"
    and "\<forall>j<i. success (results full ! j)"
  shows "\<exists>body e. fst (sync_v2_handler T v ops None st) = V2Failed body i e
      \<and> http_status (fst (sync_v2_handler T v ops None st)) = 400
      \<and> results body = take (Suc i) (results full)
      \<and> head_commit body = getHeadCommit (initVaultGit st)
      \<and> sync_v2_handler T v (take (Suc i) ops) None st = sync_v2_handler T v ops None st"
proof -
  let ?st0 = "initVaultGit st" and ?sc = "getHeadCommit (initVaultGit st)"
  obtain full' st' where
    na: "v2_loop T v False ?sc ops 0 [] ?st0 = (V2Ok full', st')"
    using v2_loop_nonatomic_shape [of T v ?sc ops 0 "[]" ?st0] by blast
  with assms(1,2,3) have "full' = full"
    by (simp add: sync_v2_handler_def Let_def)
  with na have na': "v2_loop T v False ?sc ops 0 [] ?st0 = (V2Ok full, st')" by simp
  from v2_loop_atomic_first_failure [OF na', of i] assms(4,5,6)
  obtain e st'' where
    a: "v2_loop T v True ?sc ops 0 [] ?st0 =
          (V2Failed \<lparr>v2_success = False, results = take (Suc i) (results full), head_commit = ?sc\<rparr>
             i e, st'')"
    and b: "v2_loop T v True ?sc (take (Suc i) ops) 0 [] ?st0 = v2_loop T v True ?sc ops 0 [] ?st0"
    by auto
  from assms(2) have ne: "take (Suc i) ops \<noteq> []" by (cases ops) auto
  from a b assms(1,2) ne show ?thesis
    by (simp add: sync_v2_handler_def Let_def)
qed

theorem atomic_batch_stops_at_first_failure_witness:
  "validateVaultName ''V'' \<and> example_batch \<noteq> [] \<and>
   (\<exists>body e. fst (sync_v2_handler example_tools ''V'' example_batch None empty_vault)
                 = V2Failed body 1 e
      \<and> http_status (fst (sync_v2_handler example_tools ''V'' example_batch None empty_vault)) = 400
      \<and> map index (results body) = [0, 1]
      \<and> map success (results body) = [True, False]
      \<and> head_commit body = Some 0)"
proof -
  let ?full = "the (v2_body (fst (sync_v2_handler example_tools ''V'' example_batch
                                   (Some False) empty_vault)))"
  have v: "validateVaultName ''V''" by code_simp
  have ne: "example_batch \<noteq> []" by (simp add: example_batch_def)
  have b: "v2_body (fst (sync_v2_handler example_tools ''V'' example_batch (Some False) empty_vault))
             = Some ?full" by code_simp
  have i: "1 < length (results ?full)" by code_simp
  have f: "\<not> success (results ?full ! 1)" by code_simp
  have "success (results ?full ! 0)" by code_simp
  then have s: "\<forall>j<1. success (results ?full ! j)" by simp
  have t: "map index (take (Suc 1) (results ?full)) = [0, 1]" by code_simp
  have t2: "map success (take (Suc 1) (results ?full)) = [True, False]" by code_simp
  have h: "getHeadCommit (initVaultGit empty_vault) = Some 0" by code_simp
  from atomic_batch_stops_at_first_failure [OF v ne b i f s] t t2 h v ne
  show ?thesis by auto
qed

section \<open>Conflicting merges\<close>

lemma merge_and_reply_conflicts:
  assumes "merge_tool T base client server = Conflicts m"
  shows "\<exists>fid st'. merge_and_reply T v p hc base client server st =
           (Ok200 \<lparr>sr_success = True, sr_commit = hc, sr_hash = sha256 T m, sr_file_id = fid,
                    sr_merged = True, sr_has_conflicts = True, sr_merged_content = Some m\<rparr>, st')
         \<and> git_dir st' = git_dir st \<and> branch st' = branch st \<and> dangling st' = dangling st
         \<and> staged st' = staged st"
proof -
  obtain fid st1 where e: "ensureFileId v p (Some (sha256 T m)) hc st = (fid, st1)"
    by (cases "ensureFileId v p (Some (sha256 T m)) hc st")
  then have "st1 = snd (ensureFileId v p (Some (sha256 T m)) hc st)" by simp
  then have "git_dir st1 = git_dir st \<and> branch st1 = branch st \<and> dangling st1 = dangling st
         \<and> staged st1 = staged st" by simp
  with assms e show ?thesis
    by (simp add: merge_and_reply_def mergeFile_def Let_def)
qed

lemma sync_conflict:
  assumes "validateVaultName v" and "p \<noteq> []"
    and "getCurrentFile v p (initVaultGit st) = Some server"
    and "\<not> (base_commit \<noteq> None \<and> base_commit = getHeadCommit (initVaultGit st))"
    and "base_commit = None \<longrightarrow> sha256 T (Raw bytes) \<noteq> sha256 T server"
    and "base = (case base_commit of
                   None \<Rightarrow> server
                 | Some b \<Rightarrow> (case getFileAtCommit v p b (initVaultGit st) of
                                None \<Rightarrow> Raw [] | Some x \<Rightarrow> x))"
    and "merge_tool T base (Raw bytes) server = Conflicts m"
  shows "\<exists>fid st'. sync_handler T v p (Some bytes) base_commit st =
           (Ok200 \<lparr>sr_success = True, sr_commit = getHeadCommit (initVaultGit st),
                    sr_hash = sha256 T m, sr_file_id = fid,
                    sr_merged = True, sr_has_conflicts = True, sr_merged_content = Some m\<rparr>, st')
         \<and> getHeadCommit st' = getHeadCommit (initVaultGit st)
         \<and> branch st' = branch (initVaultGit st) \<and> dangling st' = dangling (initVaultGit st)
         \<and> staged st' = staged (initVaultGit st)"
proof -
  let ?st0 = "initVaultGit st"
  have h: "sync_handler T v p (Some bytes) base_commit st =
        merge_and_reply T v p (getHeadCommit ?st0) base (Raw bytes) server ?st0"
    using assms(1-6) by (auto simp: sync_handler_def Let_def split: option.splits)
  from merge_and_reply_conflicts [OF assms(7), of v p "getHeadCommit ?st0" ?st0]
  obtain fid st' where
    m: "merge_and_reply T v p (getHeadCommit ?st0) base (Raw bytes) server ?st0 =
           (Ok200 \<lparr>sr_success = True, sr_commit = getHeadCommit ?st0, sr_hash = sha256 T m,
                    sr_file_id = fid, sr_merged = True, sr_has_conflicts = True,
                    sr_merged_content = Some m\<rparr>, st')"
    and f: "git_dir st' = git_dir ?st0" "branch st' = branch ?st0" "dangling st' = dangling ?st0"
       "staged st' = staged ?st0"
    by blast
  from f have "getHeadCommit st' = getHeadCommit ?st0" by (simp add: getHeadCommit_def)
  with h m f show ?thesis by simp
qed

lemma modify_conflict:
  assumes "op_type op = ''modify''" and "op_content op = Some bytes" and "bytes \<noteq> []"
    and "op_file_id op = Some f"
    and "getFileById v f (initVaultGit st) = Some meta" and "\<not> truthy_num (deleted_at meta)"
    and "\<not> (op_base_commit op \<noteq> None \<and> op_base_commit op = getHeadCommit (initVaultGit st))"
    and "getCurrentFile v (current_path meta) (initVaultGit st) = Some server"
    and "sha256 T (Raw bytes) \<noteq> sha256 T server"
    and "base = (case op_base_commit op of
                   None \<Rightarrow> server
                 | Some b \<Rightarrow> (case getFileAtCommit v (current_path meta) b (initVaultGit st) of
                                None \<Rightarrow> server | Some x \<Rightarrow> x))"
    and "merge_tool T base (Raw bytes) server = Conflicts m"
  shows "\<exists>fid st'. processOperation T v op i st =
           (\<lparr>index = i, success = True, res_file_id = Some fid,
             res_commit = getHeadCommit (initVaultGit st), res_hash = Some (sha256 T m),
             error = None, merged = Some True, has_conflicts = Some True,
             merged_content = Some m\<rparr>, st')
         \<and> getHeadCommit st' = getHeadCommit (initVaultGit st)
         \<and> branch st' = branch (initVaultGit st) \<and> dangling st' = dangling (initVaultGit st)
         \<and> staged st' = staged (initVaultGit st)"
proof -
  let ?st0 = "initVaultGit st"
  let ?hc = "getHeadCommit ?st0"
  let ?p = "current_path meta"
  obtain fid st1 where e: "ensureFileId v ?p (Some (sha256 T m)) ?hc ?st0 = (fid, st1)"
    by (cases "ensureFileId v ?p (Some (sha256 T m)) ?hc ?st0")
  then have s: "st1 = snd (ensureFileId v ?p (Some (sha256 T m)) ?hc ?st0)" by simp
  have fr: "git_dir st1 = git_dir ?st0 \<and> branch st1 = branch ?st0 \<and> dangling st1 = dangling ?st0
         \<and> staged st1 = staged ?st0" unfolding s by simp
  then have hd: "getHeadCommit st1 = ?hc" by (simp add: getHeadCommit_def)
  have "processModify T v op i ?st0 =
          (Inr (succeeded i (Some fid) ?hc (Some (sha256 T m)) True True (Some m)), st1)"
    using assms(2-11) e
    by (auto simp: processModify_def truthy_str_def mergeFile_def Let_def split: option.splits)
  with assms(1) have "processOperation T v op i st =
      (succeeded i (Some fid) ?hc (Some (sha256 T m)) True True (Some m), st1)"
    by (simp add: processOperation_def Let_def)
  with fr hd show ?thesis by (simp add: succeeded_def)
qed

text \<open>
  C1: when the three-way merge of a single-file sync or of a Modify operation reports
  conflicts, no commit is made. The reply has \<open>merged = true\<close> and
  \<open>has_conflicts = true\<close>, \<open>merged_content\<close> is the output of the merge with its
  markers, the returned commit is the head from before the operation, and afterwards the
  head, the history, the object store and the index are what they were. The merge base is
  the one the code takes: the server bytes without a \<open>base_commit\<close>; otherwise the file
  at \<open>base_commit\<close>, and failing that the empty buffer (sync) or the server bytes (Modify).
\<close>

theorem conflicts_are_not_committed:
  "(validateVaultName v \<and> p \<noteq> []
      \<and> getCurrentFile v p (initVaultGit st) = Some server
      \<and> \<not> (base_commit \<noteq> None \<and> base_commit = getHeadCommit (initVaultGit st))
      \<and> (base_commit = None \<longrightarrow> sha256 T (Raw bytes) \<noteq> sha256 T server)
      \<and> base = (case base_commit of
                   None \<Rightarrow> server
                 | Some b \<Rightarrow> (case getFileAtCommit v p b (initVaultGit st) of
                                None \<Rightarrow> Raw [] | Some x \<Rightarrow> x))
      \<and> merge_tool T base (Raw bytes) server = Conflicts m
    \<longrightarrow> (\<exists>fid st'. sync_handler T v p (Some bytes) base_commit st =
           (Ok200 \<lparr>sr_success = True, sr_commit = getHeadCommit (initVaultGit st),
                    sr_hash = sha256 T m, sr_file_id = fid,
                    sr_merged = True, sr_has_conflicts = True, sr_merged_content = Some m\<rparr>, st')
         \<and> getHeadCommit st' = getHeadCommit (initVaultGit st)
         \<and> (git_dir st \<longrightarrow> getHeadCommit st' = getHeadCommit st)
         \<and> branch st' = branch (initVaultGit st) \<and> dangling st' = dangling (initVaultGit st)
         \<and> staged st' = staged (initVaultGit st)))
   \<and>
   (op_type op = ''modify'' \<and> op_content op = Some obytes \<and> obytes \<noteq> []
      \<and> op_file_id op = Some f
      \<and> getFileById v f (initVaultGit st) = Some meta \<and> \<not> truthy_num (deleted_at meta)
      \<and> \<not> (op_base_commit op \<noteq> None \<and> op_base_commit op = getHeadCommit (initVaultGit st))
      \<and> getCurrentFile v (current_path meta) (initVaultGit st) = Some oserver
      \<and> sha256 T (Raw obytes) \<noteq> sha256 T oserver
      \<and> obase = (case op_base_commit op of
                   None \<Rightarrow> oserver
                 | Some b \<Rightarrow> (case getFileAtCommit v (current_path meta) b (initVaultGit st) of
                                None \<Rightarrow> oserver | Some x \<Rightarrow> x))
      \<and> merge_tool T obase (Raw obytes) oserver = Conflicts m
    \<longrightarrow> (\<exists>fid st'. processOperation T v op i st =
           (\<lparr>index = i, success = True, res_file_id = Some fid,
             res_commit = getHeadCommit (initVaultGit st), res_hash = Some (sha256 T m),
             error = None, merged = Some True, has_conflicts = Some True,
             merged_content = Some m\<rparr>, st')
         \<and> getHeadCommit st' = getHeadCommit (initVaultGit st)
         \<and> (git_dir st \<longrightarrow> getHeadCommit st' = getHeadCommit st)
         \<and> branch st' = branch (initVaultGit st) \<and> dangling st' = dangling (initVaultGit st)
         \<and> staged st' = staged (initVaultGit st)))"
proof (intro conjI impI)
  assume a: "validateVaultName v \<and> p \<noteq> []
      \<and> getCurrentFile v p (initVaultGit st) = Some server
      \<and> \<not> (base_commit \<noteq> None \<and> base_commit = getHeadCommit (initVaultGit st))
      \<and> (base_commit = None \<longrightarrow> sha256 T (Raw bytes) \<noteq> sha256 T server)
      \<and> base = (case base_commit of
                   None \<Rightarrow> server
                 | Some b \<Rightarrow> (case getFileAtCommit v p b (initVaultGit st) of
                                None \<Rightarrow> Raw [] | Some x \<Rightarrow> x))
      \<and> merge_tool T base (Raw bytes) server = Conflicts m"
  then have "\<exists>fid st'. sync_handler T v p (Some bytes) base_commit st =
           (Ok200 \<lparr>sr_success = True, sr_commit = getHeadCommit (initVaultGit st),
                    sr_hash = sha256 T m, sr_file_id = fid,
                    sr_merged = True, sr_has_conflicts = True, sr_merged_content = Some m\<rparr>, st')
         \<and> getHeadCommit st' = getHeadCommit (initVaultGit st)
         \<and> branch st' = branch (initVaultGit st) \<and> dangling st' = dangling (initVaultGit st)
         \<and> staged st' = staged (initVaultGit st)"
    using sync_conflict [where v=v and p=p and st=st and server=server and base_commit=base_commit
        and T=T and bytes=bytes and base=base and m=m] by blast
  then show "\<exists>fid st'. sync_handler T v p (Some bytes) base_commit st =
           (Ok200 \<lparr>sr_success = True, sr_commit = getHeadCommit (initVaultGit st),
                    sr_hash = sha256 T m, sr_file_id = fid,
                    sr_merged = True, sr_has_conflicts = True, sr_merged_content = Some m\<rparr>, st')
         \<and> getHeadCommit st' = getHeadCommit (initVaultGit st)
         \<and> (git_dir st \<longrightarrow> getHeadCommit st' = getHeadCommit st)
         \<and> branch st' = branch (initVaultGit st) \<and> dangling st' = dangling (initVaultGit st)
         \<and> staged st' = staged (initVaultGit st)"
    using initVaultGit_id [of st] by auto
next
  assume a: "op_type op = ''modify'' \<and> op_content op = Some obytes \<and> obytes \<noteq> []
      \<and> op_file_id op = Some f
      \<and> getFileById v f (initVaultGit st) = Some meta \<and> \<not> truthy_num (deleted_at meta)
      \<and> \<not> (op_base_commit op \<noteq> None \<and> op_base_commit op = getHeadCommit (initVaultGit st))
      \<and> getCurrentFile v (current_path meta) (initVaultGit st) = Some oserver
      \<and> sha256 T (Raw obytes) \<noteq> sha256 T oserver
      \<and> obase = (case op_base_commit op of
                   None \<Rightarrow> oserver
                 | Some b \<Rightarrow> (case getFileAtCommit v (current_path meta) b (initVaultGit st) of
                                None \<Rightarrow> oserver | Some x \<Rightarrow> x))
      \<and> merge_tool T obase (Raw obytes) oserver = Conflicts m"
  then have "\<exists>fid st'. processOperation T v op i st =
           (\<lparr>index = i, success = True, res_file_id = Some fid,
             res_commit = getHeadCommit (initVaultGit st), res_hash = Some (sha256 T m),
             error = None, merged = Some True, has_conflicts = Some True,
             merged_content = Some m\<rparr>, st')
         \<and> getHeadCommit st' = getHeadCommit (initVaultGit st)
         \<and> branch st' = branch (initVaultGit st) \<and> dangling st' = dangling (initVaultGit st)
         \<and> staged st' = staged (initVaultGit st)"
    using modify_conflict [where op=op and bytes=obytes and f=f and v=v and st=st and meta=meta
        and T=T and server=oserver and base=obase and m=m and i=i] by blast
  then show "\<exists>fid st'. processOperation T v op i st =
           (\<lparr>index = i, success = True, res_file_id = Some fid,
             res_commit = getHeadCommit (initVaultGit st), res_hash = Some (sha256 T m),
             error = None, merged = Some True, has_conflicts = Some True,
             merged_content = Some m\<rparr>, st')
         \<and> getHeadCommit st' = getHeadCommit (initVaultGit st)
         \<and> (git_dir st \<longrightarrow> getHeadCommit st' = getHeadCommit st)
         \<and> branch st' = branch (initVaultGit st) \<and> dangling st' = dangling (initVaultGit st)
         \<and> staged st' = staged (initVaultGit st)"
    using initVaultGit_id [of st] by auto
qed

theorem conflicts_are_not_committed_witness:
  "getHeadCommit conflict_vault = Some 2
   \<and> (\<exists>fid st'. sync_handler example_tools ''V'' ''n.md'' (Some ''B edited this line'') (Some 1)
                    conflict_vault =
           (Ok200 \<lparr>sr_success = True, sr_commit = Some 2,
                    sr_hash = ''sha:<<<<<<< LOCAL'', sr_file_id = fid,
                    sr_merged = True, sr_has_conflicts = True,
                    sr_merged_content = Some (Raw ''<<<<<<< LOCAL'')\<rparr>, st')
         \<and> getHeadCommit st' = Some 2)
   \<and> (\<exists>fid st'. processOperation example_tools ''V'' conflicting_modify 0 conflict_vault =
           (\<lparr>index = 0, success = True, res_file_id = Some fid,
             res_commit = Some 2, res_hash = Some ''sha:<<<<<<< LOCAL'',
             error = None, merged = Some True, has_conflicts = Some True,
             merged_content = Some (Raw ''<<<<<<< LOCAL'')\<rparr>, st')
         \<and> getHeadCommit st' = Some 2)"
proof -
  let ?m = "Raw ''<<<<<<< LOCAL''"
  let ?meta = "\<lparr>file_id = 0, vault_id = ''V'', current_path = ''n.md'',
     content_hash = Some ''sha:A edited this line'', git_commit = Some 2, created_at = 100,
     updated_at = 100, deleted_at = None\<rparr>"
  have g: "git_dir conflict_vault" by code_simp
  have i: "initVaultGit conflict_vault = conflict_vault" using g by (rule initVaultGit_id)
  have h: "getHeadCommit conflict_vault = Some 2" by code_simp
  have s1: "validateVaultName ''V''" by code_simp
  have s2: "getCurrentFile ''V'' ''n.md'' conflict_vault = Some (Raw ''A edited this line'')"
    by code_simp
  have s3: "Raw ''Original line'' = (case Some (1::nat) of
                   None \<Rightarrow> Raw ''A edited this line''
                 | Some b \<Rightarrow> (case getFileAtCommit ''V'' ''n.md'' b conflict_vault of
                                None \<Rightarrow> Raw [] | Some x \<Rightarrow> x))" by code_simp
  have s3': "Raw ''Original line'' = (case op_base_commit conflicting_modify of
                   None \<Rightarrow> Raw ''A edited this line''
                 | Some b \<Rightarrow> (case getFileAtCommit ''V'' (current_path ?meta) b conflict_vault of
                                None \<Rightarrow> Raw ''A edited this line'' | Some x \<Rightarrow> x))" by code_simp
  have s4: "merge_tool example_tools (Raw ''Original line'') (Raw ''B edited this line'')
              (Raw ''A edited this line'') = Conflicts ?m" by code_simp
  have s5: "sha256 example_tools (Raw ''B edited this line'') \<noteq>
            sha256 example_tools (Raw ''A edited this line'')" by code_simp
  have s6: "sha256 example_tools ?m = ''sha:<<<<<<< LOCAL''" by code_simp
  have m1: "op_type conflicting_modify = ''modify''
      \<and> op_content conflicting_modify = Some ''B edited this line''
      \<and> op_file_id conflicting_modify = Some 0 \<and> op_base_commit conflicting_modify = Some 1"
    by (simp add: conflicting_modify_def)
  have m2: "getFileById ''V'' 0 conflict_vault = Some ?meta" by code_simp
  have m3: "\<not> truthy_num (deleted_at ?meta)" by (simp add: truthy_num_def)
  have m4: "getCurrentFile ''V'' (current_path ?meta) conflict_vault
              = Some (Raw ''A edited this line'')" by code_simp
  from conflicts_are_not_committed [where v="''V''" and p="''n.md''" and st=conflict_vault
        and server="Raw ''A edited this line''" and base_commit="Some 1" and T=example_tools
        and bytes="''B edited this line''" and base="Raw ''Original line''" and m="?m"
        and op=conflicting_modify and obytes="''B edited this line''" and f=0 and meta="?meta"
        and oserver="Raw ''A edited this line''" and obase="Raw ''Original line''" and i=0]
    g i h s1 s2 s3 s3' s4 s5 s6 m1 m2 m3 m4
  show ?thesis by auto
qed

section \<open>Lines of the output of git\<close>

lemma plain_char_escape: "plain_char c \<Longrightarrow> c_escape c = [c]"
  by (auto simp: plain_char_def c_escape_def Let_def)

lemma plain_char_newline: "plain_char c \<Longrightarrow> c \<noteq> newline"
  by (auto simp: plain_char_def newline_def)

lemma of_char_space: "(of_char c :: nat) = 32 \<Longrightarrow> c = CHR '' ''"
proof -
  assume "(of_char c :: nat) = 32"
  then have "(of_char c :: nat) = of_char (CHR '' '')" by simp
  then show ?thesis by (simp only: of_char_eq_iff)
qed

lemma plain_char_space: "plain_char c \<Longrightarrow> c \<noteq> CHR '' '' \<Longrightarrow> \<not> js_space c"
  by (auto simp: plain_char_def js_space_def dest: of_char_space)

lemma quote_path_plain: "plain_name p \<Longrightarrow> quote_path p = p"
  by (auto simp: plain_name_def quote_path_def list_all_iff plain_char_escape)

lemma plain_name_no_newline: "plain_name p \<Longrightarrow> newline \<notin> set p"
  using plain_char_newline by (auto simp: plain_name_def list_all_iff)

lemma plain_name_hd: "plain_name p \<Longrightarrow> \<not> js_space (hd p)"
proof -
  assume a: "plain_name p"
  then have "p \<noteq> []" by (simp add: plain_name_def)
  then have "hd p \<in> set p" by simp
  with a have "plain_char (hd p)" by (simp add: plain_name_def list_all_iff)
  moreover from a have "hd p \<noteq> CHR '' ''" by (simp add: plain_name_def)
  ultimately show ?thesis by (rule plain_char_space)
qed

lemma plain_name_last: "plain_name p \<Longrightarrow> \<not> js_space (last p)"
proof -
  assume a: "plain_name p"
  then have "p \<noteq> []" by (simp add: plain_name_def)
  then have "last p \<in> set p" by simp
  with a have "plain_char (last p)" by (simp add: plain_name_def list_all_iff)
  moreover from a have "last p \<noteq> CHR '' ''" by (simp add: plain_name_def)
  ultimately show ?thesis by (rule plain_char_space)
qed

lemma print_paths_plain:
  "list_all plain_name ps \<Longrightarrow> print_paths ps = concat (map (\<lambda>p. p @ [newline]) ps)"
  by (induction ps) (simp_all add: print_paths_def quote_path_plain)

lemma split_nl_line:
  "newline \<notin> set p \<Longrightarrow> split_nl (p @ newline # rest) = p # split_nl rest"
  by (induction p) (auto split: list.splits)

lemma split_nl_last: "newline \<notin> set p \<Longrightarrow> split_nl p = [p]"
  by (induction p) (auto split: list.splits)

lemma split_nl_lines:
  "\<forall>p \<in> set ps. newline \<notin> set p \<Longrightarrow> newline \<notin> set q \<Longrightarrow>
     split_nl (concat (map (\<lambda>p. p @ [newline]) ps) @ q) = ps @ [q]"
  by (induction ps) (simp_all add: split_nl_line split_nl_last)

lemma js_trim_lines:
  assumes "ps \<noteq> []" and "\<not> js_space (hd (hd ps))" and "hd ps \<noteq> []"
    and "\<not> js_space (last (last ps))" and "last ps \<noteq> []"
  shows "js_trim (concat (map (\<lambda>p. p @ [newline]) ps)) =
           concat (map (\<lambda>p. p @ [newline]) (butlast ps)) @ last ps"
proof -
  let ?j = "\<lambda>xs. concat (map (\<lambda>p. p @ [newline]) xs)"
  have sp: "js_space newline" by (simp add: js_space_def newline_def)
  from assms(1) have "?j ps = ?j (butlast ps @ [last ps])" by simp
  also have "\<dots> = ?j (butlast ps) @ last ps @ [newline]"
    by (simp del: append_butlast_last_id)
  finally have e: "?j ps = ?j (butlast ps) @ last ps @ [newline]" .
  from assms(1,3) obtain c cs rest where h: "ps = (c # cs) # rest"
    by (cases ps; cases "hd ps") auto
  with assms(2) have "\<not> js_space c" by simp
  with h have d1: "dropWhile js_space (?j ps) = ?j ps" by simp
  from assms(5) obtain ys y where l: "last ps = ys @ [y]"
    by (metis append_butlast_last_id)
  with assms(4) have ny: "\<not> js_space y" by simp
  have "rev (?j ps) = newline # y # rev ys @ rev (?j (butlast ps))"
    using e l by simp
  then have "dropWhile js_space (rev (?j ps)) = y # rev ys @ rev (?j (butlast ps))"
    using sp ny by simp
  then have "rev (dropWhile js_space (rev (?j ps))) = ?j (butlast ps) @ last ps"
    using l by simp
  with d1 show ?thesis by (simp add: js_trim_def)
qed

lemma output_lines_plain:
  assumes "list_all plain_name ps" and "ps \<noteq> []"
  shows "output_lines (print_paths ps) = ps"
proof -
  from assms have hp: "plain_name (hd ps)" and lp: "plain_name (last ps)"
    by (simp_all add: list_all_iff)
  have t: "js_trim (concat (map (\<lambda>p. p @ [newline]) ps)) =
           concat (map (\<lambda>p. p @ [newline]) (butlast ps)) @ last ps"
    using assms(2) hp lp
    by (intro js_trim_lines) (simp_all add: plain_name_hd plain_name_last plain_name_def)
  have n: "\<forall>p \<in> set (butlast ps). newline \<notin> set p"
    using assms(1) plain_name_no_newline by (auto simp: list_all_iff dest: in_set_butlastD)
  have "split_nl (concat (map (\<lambda>p. p @ [newline]) (butlast ps)) @ last ps) = butlast ps @ [last ps]"
    using n lp by (intro split_nl_lines) (simp_all add: plain_name_no_newline)
  with assms(2) have "split_nl (concat (map (\<lambda>p. p @ [newline]) (butlast ps)) @ last ps) = ps"
    by simp
  with t show ?thesis using assms(1) by (simp add: output_lines_def print_paths_plain)
qed

lemma output_lines_empty: "output_lines (print_paths []) = [[]]"
  by (simp add: output_lines_def print_paths_def js_trim_def)

lemma tracked_lines_plain:
  assumes "list_all plain_name ps"
  shows "filter tracked_filter (output_lines (print_paths ps)) = filter tracked_filter ps"
proof (cases "ps = []")
  case True
  then show ?thesis by (simp add: output_lines_empty tracked_filter_def)
next
  case False
  with assms show ?thesis by (simp add: output_lines_plain)
qed

section \<open>Changes since a commit\<close>

lemma wt_agree_refl [simp]: "wt_agree a a"
  by (simp add: wt_agree_def)

lemma wt_agree_trans: "wt_agree a b \<Longrightarrow> wt_agree b c \<Longrightarrow> wt_agree a c"
  by (simp add: wt_agree_def)

lemma wt_agree_updateGitManifest [simp]: "wt_agree st (updateGitManifest v st)"
  by (simp add: wt_agree_def updateGitManifest_def Let_def update_conv')

lemma wt_agree_same_worktree: "worktree b = worktree a \<Longrightarrow> wt_agree a b"
  by (simp add: wt_agree_def)

lemma worktree_updateFileRecord:
  "wt_agree st (snd (updateFileRecord v f u st))"
  by (simp add: updateFileRecord_def Let_def wt_agree_def updateGitManifest_def update_conv')

lemma worktree_createFileRecord:
  "wt_agree st (snd (createFileRecord v p h c st))"
  by (simp add: createFileRecord_def Let_def wt_agree_def updateGitManifest_def update_conv')

lemma wt_agree_ensureFileId [simp]: "wt_agree st (snd (ensureFileId v p h c st))"
  using worktree_updateFileRecord worktree_createFileRecord
  by (simp add: ensureFileId_def Let_def case_prod_beta split: option.splits)

lemma git_add_worktree: "git_add T p st = Inr st' \<Longrightarrow> worktree st' = worktree st"
  by (auto simp: git_add_def split: if_splits option.splits)

lemma git_commit_worktree: "git_commit_m m st = Inr st' \<Longrightarrow> worktree st' = worktree st"
  by (auto simp: git_commit_m_def split: if_splits)

lemma wt_agree_bootstrap_loop: "wt_agree st (bootstrap_loop T v fs st)"
proof (induction fs arbitrary: st)
  case Nil
  then show ?case by simp
next
  case (Cons p fs)
  show ?case
  proof (cases "map_of (worktree st) p")
    case None
    then show ?thesis using Cons.IH by simp
  next
    case (Some content)
    let ?st1 = "snd (ensureFileId v p (Some (sha256 T content))
                      (case git_log_path p st of Inl _ \<Rightarrow> None | Inr c \<Rightarrow> map_option cid c) st)"
    have "wt_agree st ?st1" by simp
    moreover have "wt_agree ?st1 (bootstrap_loop T v fs ?st1)" by (rule Cons.IH)
    ultimately have "wt_agree st (bootstrap_loop T v fs ?st1)" by (rule wt_agree_trans)
    then show ?thesis using Some by (simp add: Let_def)
  qed
qed

lemma add_commit_worktree:
  "worktree (case git_add T p st of
               Inl _ \<Rightarrow> st
             | Inr s \<Rightarrow> (case git_commit_m m s of Inl _ \<Rightarrow> s | Inr s' \<Rightarrow> s')) = worktree st"
  by (auto simp: git_add_def git_commit_m_def split: option.splits)

lemma wt_agree_bootstrap: "wt_agree st (bootstrapVaultMetadata T v st)"
proof -
  let ?fs = "(case git_ls_files st of
                Inl _ \<Rightarrow> []
              | Inr out \<Rightarrow> filter tracked_filter (output_lines out))"
  let ?st1 = "bootstrap_loop T v ?fs st"
  let ?st2 = "updateGitManifest v ?st1"
  have "wt_agree st ?st1" by (rule wt_agree_bootstrap_loop)
  moreover have "wt_agree ?st1 ?st2" by simp
  ultimately have a: "wt_agree st ?st2" by (rule wt_agree_trans)
  have "worktree (bootstrapVaultMetadata T v st) = worktree ?st2"
    unfolding bootstrapVaultMetadata_def Let_def by (rule add_commit_worktree)
  then show ?thesis using a by (simp add: wt_agree_def)
qed

lemma manifest_loop_paths:
  assumes "manifest_path \<notin> set fs"
  shows "map rec_path (fst (manifest_loop T v hc fs st)) =
           filter (\<lambda>p. map_of (worktree st) p \<noteq> None) fs"
  using assms
proof (induction fs arbitrary: st)
  case Nil
  then show ?case by simp
next
  case (Cons p fs)
  show ?case
  proof (cases "map_of (worktree st) p")
    case None
    then show ?thesis using Cons by simp
  next
    case (Some content)
    let ?commit = "(case git_log_path p st of Inl _ \<Rightarrow> Some hc | Inr c \<Rightarrow> map_option cid c)"
    let ?st1 = "snd (ensureFileId v p (Some (sha256 T content)) ?commit st)"
    have ag: "wt_agree st ?st1" by simp
    have "map rec_path (fst (manifest_loop T v hc fs ?st1)) =
            filter (\<lambda>q. map_of (worktree ?st1) q \<noteq> None) fs"
      using Cons by simp
    also have "\<dots> = filter (\<lambda>q. map_of (worktree st) q \<noteq> None) fs"
    proof (rule filter_cong [OF refl])
      fix q assume "q \<in> set fs"
      with Cons.prems have "q \<noteq> manifest_path" by auto
      with ag show "(map_of (worktree ?st1) q \<noteq> None) = (map_of (worktree st) q \<noteq> None)"
        by (simp add: wt_agree_def)
    qed
    finally show ?thesis using Some
      by (simp add: Let_def case_prod_beta)
  qed
qed

lemma tracked_not_manifest: "manifest_path \<notin> set (filter tracked_filter xs)"
  by (simp add: tracked_filter_def manifest_path_def)

lemma getManifest_paths:
  assumes "getHeadCommit (initVaultGit st) \<noteq> None"
  shows "map rec_path (fst (getManifest T v st)) =
    filter (\<lambda>p. map_of (worktree (initVaultGit st)) p \<noteq> None)
      (filter tracked_filter
         (output_lines (print_paths (sort (map fst (staged (initVaultGit st)))))))"
proof -
  let ?st0 = "initVaultGit st"
  let ?ls = "output_lines (print_paths (sort (map fst (staged ?st0))))"
  let ?fs = "filter tracked_filter ?ls"
  let ?st1 = "(if ?fs \<noteq> [] \<and> \<not> isVaultBootstrapped v ?st0
               then bootstrapVaultMetadata T v ?st0 else ?st0)"
  from assms obtain hc where hc: "getHeadCommit ?st0 = Some hc" by blast
  then have gd: "git_dir ?st0" by (auto simp: getHeadCommit_def split: if_splits)
  have ag: "wt_agree ?st0 ?st1" using wt_agree_bootstrap by simp
  have "getManifest T v st = manifest_loop T v hc ?fs ?st1"
    using hc gd by (simp add: getManifest_def git_ls_files_def Let_def)
  then have "map rec_path (fst (getManifest T v st)) =
      filter (\<lambda>p. map_of (worktree ?st1) p \<noteq> None) ?fs"
    using manifest_loop_paths [OF tracked_not_manifest] by simp
  also have "\<dots> = filter (\<lambda>p. map_of (worktree ?st0) p \<noteq> None) ?fs"
  proof (rule filter_cong [OF refl])
    fix q assume "q \<in> set ?fs"
    with tracked_not_manifest [of ?ls] have "q \<noteq> manifest_path" by metis
    with ag show "(map_of (worktree ?st1) q \<noteq> None) = (map_of (worktree ?st0) q \<noteq> None)"
      unfolding wt_agree_def by simp
  qed
  finally show ?thesis .
qed

lemma initVaultGit_idem [simp]: "initVaultGit (initVaultGit st) = initVaultGit st"
  by (simp add: initVaultGit_def)

lemma unknown_commit_not_head:
  assumes "getHeadCommit st = Some hc" and "find_commit st c = None"
  shows "c \<noteq> hc"
proof
  assume "c = hc"
  with assms(1) have "find_commit st c \<noteq> None"
    by (auto simp: getHeadCommit_def find_commit_def split: if_splits list.splits)
  with assms(2) show False by simp
qed

lemma changes_since_unknown:
  assumes "getHeadCommit (initVaultGit st) \<noteq> None"
    and "find_commit (initVaultGit st) c = None"
  shows "snd (fst (getChangesSince T v (Some c) st)) = map rec_path (fst (getManifest T v st))"
proof -
  from assms(1) obtain hc where hc: "getHeadCommit (initVaultGit st) = Some hc" by blast
  from hc assms(2) have ne: "c \<noteq> hc" by (rule unknown_commit_not_head)
  have m: "getManifest T v (initVaultGit st) = getManifest T v st"
    by (simp add: getManifest_def)
  from assms hc ne show ?thesis
    by (simp add: getChangesSince_def Let_def git_diff_name_only_def m case_prod_beta)
qed

text \<open>
  C3, as the code has it. On a vault with a head, \<open>getChangesSince\<close> returns the empty
  list when \<open>since\<close> is the head and also when \<open>since\<close> is null. When \<open>since\<close> names a
  commit the repository does not have, it returns the paths of the manifest: the lines
  of the output of \<open>git ls-files\<close> outside the reserved ones that name a file on disk. When
  every tracked name is plain, these are all the tracked paths outside the reserved ones
  that exist on disk, in the order of their bytes.
\<close>

theorem changes_since_head_null_unknown:
  "(since = None \<or> since = getHeadCommit (initVaultGit st) \<longrightarrow>
      snd (fst (getChangesSince T v since st)) = [])
   \<and> (getHeadCommit (initVaultGit st) \<noteq> None \<and> since = Some c
        \<and> find_commit (initVaultGit st) c = None \<longrightarrow>
      snd (fst (getChangesSince T v since st)) = map rec_path (fst (getManifest T v st))
      \<and> snd (fst (getChangesSince T v since st)) =
          filter (\<lambda>p. getCurrentFile v p (initVaultGit st) \<noteq> None)
            (filter tracked_filter
               (output_lines (print_paths (sort (map fst (staged (initVaultGit st))))))))
   \<and> (getHeadCommit (initVaultGit st) \<noteq> None \<and> since = Some c
        \<and> find_commit (initVaultGit st) c = None
        \<and> list_all plain_name (map fst (staged (initVaultGit st))) \<longrightarrow>
      snd (fst (getChangesSince T v since st)) =
          filter (\<lambda>p. tracked_filter p \<and> getCurrentFile v p (initVaultGit st) \<noteq> None)
            (sort (map fst (staged (initVaultGit st)))))"
proof -
  let ?st0 = "initVaultGit st"
  let ?names = "sort (map fst (staged ?st0))"
  have A: "since = None \<or> since = getHeadCommit ?st0 \<longrightarrow>
      snd (fst (getChangesSince T v since st)) = []"
    by (auto simp: getChangesSince_def Let_def split: option.splits)
  have B: "snd (fst (getChangesSince T v since st)) = map rec_path (fst (getManifest T v st))
      \<and> snd (fst (getChangesSince T v since st)) =
          filter (\<lambda>p. getCurrentFile v p ?st0 \<noteq> None)
            (filter tracked_filter (output_lines (print_paths ?names)))"
    if a: "getHeadCommit ?st0 \<noteq> None \<and> since = Some c \<and> find_commit ?st0 c = None"
  proof -
    from a have "snd (fst (getChangesSince T v since st)) = map rec_path (fst (getManifest T v st))"
      by (simp add: changes_since_unknown)
    then show ?thesis
      using getManifest_paths [of st T v] a by (simp add: getCurrentFile_def)
  qed
  have C: "snd (fst (getChangesSince T v since st)) =
          filter (\<lambda>p. tracked_filter p \<and> getCurrentFile v p ?st0 \<noteq> None) ?names"
    if a: "getHeadCommit ?st0 \<noteq> None \<and> since = Some c \<and> find_commit ?st0 c = None
        \<and> list_all plain_name (map fst (staged ?st0))"
  proof -
    from a have "list_all plain_name ?names" by (simp add: list_all_iff)
    then have "filter tracked_filter (output_lines (print_paths ?names)) =
        filter tracked_filter ?names" by (rule tracked_lines_plain)
    moreover from a B have "snd (fst (getChangesSince T v since st)) =
          filter (\<lambda>p. getCurrentFile v p ?st0 \<noteq> None)
            (filter tracked_filter (output_lines (print_paths ?names)))" by blast
    ultimately show ?thesis by (simp add: conj_commute)
  qed
  from A B C show ?thesis by blast
qed

theorem changes_since_head_null_unknown_witness:
  "snd (fst (getChangesSince example_tools ''V'' None conflict_vault)) = []
   \<and> snd (fst (getChangesSince example_tools ''V'' (Some 2) conflict_vault)) = []
   \<and> snd (fst (getChangesSince example_tools ''V'' (Some 99) conflict_vault)) = [''n.md'']
   \<and> map fst (staged accent_vault) = [''.gitignore'', ''n.md'', accent_md]
   \<and> getCurrentFile ''V'' accent_md accent_vault = Some (Raw ''bonjour'')
   \<and> snd (fst (getChangesSince example_tools ''V'' (Some 99) accent_vault)) = [''n.md'']"
proof -
  have i: "initVaultGit conflict_vault = conflict_vault" by code_simp
  have h: "getHeadCommit conflict_vault = Some 2" by code_simp
  have u: "find_commit conflict_vault 99 = None" by code_simp
  have pl: "list_all plain_name (map fst (staged conflict_vault))" by code_simp
  have t: "filter (\<lambda>p. tracked_filter p \<and> getCurrentFile ''V'' p conflict_vault \<noteq> None)
            (sort (map fst (staged conflict_vault))) = [''n.md'']" by code_simp
  have a: "snd (fst (getChangesSince example_tools ''V'' None conflict_vault)) = []"
    using changes_since_head_null_unknown [where since=None and st=conflict_vault
         and T=example_tools and v="''V''"] by simp
  have b: "snd (fst (getChangesSince example_tools ''V'' (Some 2) conflict_vault)) = []"
    using changes_since_head_null_unknown [where since="Some 2" and st=conflict_vault
         and T=example_tools and v="''V''"] i h by simp
  note T99 = changes_since_head_null_unknown [where since="Some 99" and c=99
         and st=conflict_vault and T=example_tools and v="''V''",
         THEN conjunct2, THEN conjunct2, unfolded i]
  have P: "getHeadCommit conflict_vault \<noteq> None \<and> Some 99 = Some (99::nat)
        \<and> find_commit conflict_vault 99 = None
        \<and> list_all plain_name (map fst (staged conflict_vault))" using h u pl by simp
  note c0 = T99 [THEN mp, OF P]
  have c: "snd (fst (getChangesSince example_tools ''V'' (Some 99) conflict_vault)) = [''n.md'']"
    using c0 by (simp only: t)
  have i': "initVaultGit accent_vault = accent_vault" by code_simp
  have h': "getHeadCommit accent_vault \<noteq> None" by code_simp
  have u': "find_commit accent_vault 99 = None" by code_simp
  have s': "map fst (staged accent_vault) = [''.gitignore'', ''n.md'', accent_md]" by code_simp
  have w': "getCurrentFile ''V'' accent_md accent_vault = Some (Raw ''bonjour'')" by code_simp
  have t': "filter (\<lambda>p. getCurrentFile ''V'' p accent_vault \<noteq> None)
            (filter tracked_filter
               (output_lines (print_paths (sort (map fst (staged accent_vault)))))) = [''n.md'']"
    by code_simp
  note A99 = changes_since_head_null_unknown [where since="Some 99" and c=99
         and st=accent_vault and T=example_tools and v="''V''",
         THEN conjunct2, THEN conjunct1, unfolded i']
  have P': "getHeadCommit accent_vault \<noteq> None \<and> Some 99 = Some (99::nat)
        \<and> find_commit accent_vault 99 = None" using h' u' by simp
  note d0 = A99 [THEN mp, OF P', THEN conjunct2]
  have d: "snd (fst (getChangesSince example_tools ''V'' (Some 99) accent_vault)) = [''n.md'']"
    using d0 by (simp only: t')
  from a b c s' w' d show ?thesis by (intro conjI)
qed

text \<open>
  The claim as stated fails for a null \<open>since\<close>: the vault tracks \<open>n.md\<close> and the list of
  changed paths is empty.
\<close>

theorem changes_since_null_lists_nothing:
  "getHeadCommit conflict_vault = Some 2
   \<and> map rec_path (fst (getManifest example_tools ''V'' conflict_vault)) = [''n.md'']
   \<and> snd (fst (getChangesSince example_tools ''V'' None conflict_vault)) = []"
  by code_simp

section \<open>The rename commit and the manifest file\<close>

text \<open>
  C8, at scenario S5: \<open>renameFile\<close> reads the head (commit 2) right after the rename
  commit and returns it; the manifest is then staged and \<open>git commit --amend\<close> replaces
  commit 2 by commit 3. The reply of \<open>/rename\<close> carries 2, the head observed after the
  operation is 3, and commit 2 is no longer part of the history.
\<close>

theorem rename_returns_replaced_commit:
  "getHeadCommit created_vault = Some 1
   \<and> fst (rename_handler example_tools ''V'' (Some 0) ''old.md'' ''new.md'' None created_vault)
       = Ok200 (Some 2, Some 0, Some ''sha:hello'')
   \<and> getHeadCommit renamed_vault = Some 3
   \<and> map cid (branch renamed_vault) = [3, 1, 0]
   \<and> map cid (dangling renamed_vault) = [2]"
  by code_simp

text \<open>
  C4, at the same scenario: asked for the changes since commit 1, \<open>/status\<close> lists the
  reserved path \<open>.scion/manifest.json\<close>, which the rename committed, next to the new
  name of the file (git pairs \<open>old.md\<close> with it and prints paths in order). The filter of
  \<open>getChangesSince\<close> drops the gitignore file only; the one of \<open>getManifest\<close> also drops
  the paths under \<open>.scion/\<close>.
\<close>

theorem status_lists_manifest_file:
  "getHeadCommit created_vault = Some 1
   \<and> fst (status_handler example_tools ''V'' (Some 1) renamed_vault)
       = Ok200 (Some 3, [''.scion/manifest.json'', ''new.md''], True)
   \<and> map rec_path (fst (getManifest example_tools ''V'' renamed_vault)) = [''new.md'']"
  by code_simp

section \<open>Rename detection\<close>

lemma no_answer_by_file_id:
  assumes "fid = None \<or> (\<exists>i. fid = Some i \<and> getFileById v i st = None)
      \<or> (\<exists>i m. fid = Some i \<and> getFileById v i st = Some m
            \<and> (current_path m = missing \<or> truthy_num (deleted_at m)))"
  shows "strategy_file_id v missing fid st = None"
  using assms by (auto simp: strategy_file_id_def)

lemma candidates_by_hash:
  "filter (\<lambda>f. current_path f \<noteq> missing) (getFilesByHash v h st) =
   filter (\<lambda>r. vault_id r = v \<and> content_hash r = Some h \<and> deleted_at r = None
                \<and> current_path r \<noteq> missing) (files st)"
  by (auto simp: getFilesByHash_def intro: filter_cong)

text \<open>
  C6, as the code has it. A given \<open>file_id\<close> whose record is at another path and whose
  \<open>deleted_at\<close> is not set answers with method \<open>file_id\<close>. Otherwise (no \<open>file_id\<close>, no
  record for it, a record at the missing path itself, or a deleted record) exactly one
  active record of the vault with the missing hash at another path answers with method
  \<open>hash_match\<close>. Otherwise, also when more than one such record matches the hash, the
  detector goes on to the path history of the manifest's files and answers with method
  \<open>path_history\<close> from the first row of the manifest that once had the missing path, and
  with \<open>found = false\<close> if none had.
\<close>

theorem rename_detector_order:
  "(fid = Some i \<and> getFileById v i st = Some m
      \<and> current_path m \<noteq> missing \<and> \<not> truthy_num (deleted_at m) \<longrightarrow>
      detectRename T v missing h fid st =
          (\<lparr>found = True, d_newPath = Some (current_path m), d_fileId = Some (file_id m),
            d_method = Some ''file_id''\<rparr>, st))
   \<and> ((fid = None \<or> (\<exists>i. fid = Some i \<and> getFileById v i st = None)
          \<or> (\<exists>i m. fid = Some i \<and> getFileById v i st = Some m
                \<and> (current_path m = missing \<or> truthy_num (deleted_at m))))
        \<and> filter (\<lambda>r. vault_id r = v \<and> content_hash r = Some h \<and> deleted_at r = None
                        \<and> current_path r \<noteq> missing) (files st) = [c] \<longrightarrow>
      detectRename T v missing h fid st =
          (\<lparr>found = True, d_newPath = Some (current_path c), d_fileId = Some (file_id c),
            d_method = Some ''hash_match''\<rparr>, st))
   \<and> ((fid = None \<or> (\<exists>i. fid = Some i \<and> getFileById v i st = None)
          \<or> (\<exists>i m. fid = Some i \<and> getFileById v i st = Some m
                \<and> (current_path m = missing \<or> truthy_num (deleted_at m))))
        \<and> length (filter (\<lambda>r. vault_id r = v \<and> content_hash r = Some h \<and> deleted_at r = None
                                \<and> current_path r \<noteq> missing) (files st)) \<noteq> 1 \<longrightarrow>
      detectRename T v missing h fid st =
        (case find (\<lambda>file. missing \<in> set (getAllPreviousPaths v (rec_file_id file)
                                              (snd (getManifest T v st))))
                (fst (getManifest T v st)) of
           Some file \<Rightarrow>
             (\<lparr>found = True, d_newPath = Some (rec_path file), d_fileId = Some (rec_file_id file),
               d_method = Some ''path_history''\<rparr>, snd (getManifest T v st))
         | None \<Rightarrow>
             (\<lparr>found = False, d_newPath = None, d_fileId = None, d_method = None\<rparr>,
              snd (getManifest T v st))))"
proof -
  let ?none = "fid = None \<or> (\<exists>i. fid = Some i \<and> getFileById v i st = None)
          \<or> (\<exists>i m. fid = Some i \<and> getFileById v i st = Some m
                \<and> (current_path m = missing \<or> truthy_num (deleted_at m)))"
  let ?cands = "filter (\<lambda>r. vault_id r = v \<and> content_hash r = Some h \<and> deleted_at r = None
                        \<and> current_path r \<noteq> missing) (files st)"
  let ?history = "(case find (\<lambda>file. missing \<in> set (getAllPreviousPaths v (rec_file_id file)
                                              (snd (getManifest T v st))))
                (fst (getManifest T v st)) of
           Some file \<Rightarrow>
             (\<lparr>found = True, d_newPath = Some (rec_path file), d_fileId = Some (rec_file_id file),
               d_method = Some ''path_history''\<rparr>, snd (getManifest T v st))
         | None \<Rightarrow>
             (\<lparr>found = False, d_newPath = None, d_fileId = None, d_method = None\<rparr>,
              snd (getManifest T v st)))"
  have A: "fid = Some i \<and> getFileById v i st = Some m
      \<and> current_path m \<noteq> missing \<and> \<not> truthy_num (deleted_at m) \<longrightarrow>
      detectRename T v missing h fid st =
          (\<lparr>found = True, d_newPath = Some (current_path m), d_fileId = Some (file_id m),
            d_method = Some ''file_id''\<rparr>, st)"
    by (simp add: strategy_file_id_def detectRename_def)
  have B: "?none \<and> ?cands = [c] \<longrightarrow>
      detectRename T v missing h fid st =
          (\<lparr>found = True, d_newPath = Some (current_path c), d_fileId = Some (file_id c),
            d_method = Some ''hash_match''\<rparr>, st)"
  proof
    assume a: "?none \<and> ?cands = [c]"
    then have "?none" by (rule conjunct1)
    then have s: "strategy_file_id v missing fid st = None" by (rule no_answer_by_file_id)
    from a have "?cands = [c]" by (rule conjunct2)
    then have "filter (\<lambda>f. current_path f \<noteq> missing) (getFilesByHash v h st) = [c]"
      by (simp add: candidates_by_hash)
    with s show "detectRename T v missing h fid st =
          (\<lparr>found = True, d_newPath = Some (current_path c), d_fileId = Some (file_id c),
            d_method = Some ''hash_match''\<rparr>, st)"
      by (simp add: detectRename_def detectRenameByHash_def Let_def)
  qed
  have C: "?none \<and> length ?cands \<noteq> 1 \<longrightarrow> detectRename T v missing h fid st = ?history"
  proof
    assume a: "?none \<and> length ?cands \<noteq> 1"
    then have "?none" by (rule conjunct1)
    then have s: "strategy_file_id v missing fid st = None" by (rule no_answer_by_file_id)
    from a have "length ?cands \<noteq> 1" by (rule conjunct2)
    then have "length (filter (\<lambda>f. current_path f \<noteq> missing) (getFilesByHash v h st)) \<noteq> 1"
      by (simp add: candidates_by_hash)
    then have "detectRenameByHash v missing h st = None"
      by (auto simp: detectRenameByHash_def Let_def split: list.splits)
    with s show "detectRename T v missing h fid st = ?history"
      by (simp add: detectRename_def case_prod_beta)
  qed
  from A B C show ?thesis by (intro conjI)
qed

theorem rename_detector_order_witness:
  "fst (detectRename example_tools ''V'' ''old.md'' ''sha:other'' (Some 0) renamed_vault)
     = \<lparr>found = True, d_newPath = Some ''new.md'', d_fileId = Some 0, d_method = Some ''file_id''\<rparr>
   \<and> fst (detectRename example_tools ''V'' ''b.md'' ''sha:same'' (Some 0) twins_vault)
     = \<lparr>found = True, d_newPath = Some ''c.md'', d_fileId = Some 1, d_method = Some ''hash_match''\<rparr>
   \<and> fst (detectRename example_tools ''V'' ''a.md'' ''sha:same'' None twins_vault)
     = \<lparr>found = True, d_newPath = Some ''b.md'', d_fileId = Some 0, d_method = Some ''path_history''\<rparr>"
proof -
  let ?m = "\<lparr>file_id = 0, vault_id = ''V'', current_path = ''new.md'',
     content_hash = Some ''sha:hello'', git_commit = Some 3,
     created_at = 100, updated_at = 100, deleted_at = None\<rparr>"
  let ?b = "\<lparr>file_id = 0, vault_id = ''V'', current_path = ''b.md'',
     content_hash = Some ''sha:same'', git_commit = Some 4,
     created_at = 100, updated_at = 100, deleted_at = None\<rparr>"
  let ?c = "\<lparr>file_id = 1, vault_id = ''V'', current_path = ''c.md'',
     content_hash = Some ''sha:same'', git_commit = Some 2,
     created_at = 100, updated_at = 100, deleted_at = None\<rparr>"
  have g1: "getFileById ''V'' 0 renamed_vault = Some ?m" by code_simp
  have a1: "Some 0 = Some (0::nat) \<and> getFileById ''V'' 0 renamed_vault = Some ?m
      \<and> current_path ?m \<noteq> ''old.md'' \<and> \<not> truthy_num (deleted_at ?m)"
    using g1 by (simp add: truthy_num_def)
  note A0 = rename_detector_order [where v="''V''" and missing="''old.md''" and fid="Some 0"
        and i=0 and st=renamed_vault and m="?m" and T=example_tools and h="''sha:other''",
        THEN conjunct1, THEN mp, OF a1]
  have A: "fst (detectRename example_tools ''V'' ''old.md'' ''sha:other'' (Some 0) renamed_vault)
     = \<lparr>found = True, d_newPath = Some ''new.md'', d_fileId = Some 0, d_method = Some ''file_id''\<rparr>"
    using A0 by simp
  have g2: "getFileById ''V'' 0 twins_vault = Some ?b" by code_simp
  have n2: "Some 0 = None \<or> (\<exists>i. Some 0 = Some i \<and> getFileById ''V'' i twins_vault = None)
          \<or> (\<exists>i m. Some 0 = Some i \<and> getFileById ''V'' i twins_vault = Some m
                \<and> (current_path m = ''b.md'' \<or> truthy_num (deleted_at m)))"
    using g2 by simp
  have f2: "filter (\<lambda>r. vault_id r = ''V'' \<and> content_hash r = Some ''sha:same''
                        \<and> deleted_at r = None \<and> current_path r \<noteq> ''b.md'') (files twins_vault)
            = [?c]"
    by code_simp
  note B0 = rename_detector_order [where v="''V''" and missing="''b.md''" and fid="Some 0"
        and st=twins_vault and c="?c" and T=example_tools and h="''sha:same''",
        THEN conjunct2, THEN conjunct1, THEN mp, OF conjI, OF n2 f2]
  have B: "fst (detectRename example_tools ''V'' ''b.md'' ''sha:same'' (Some 0) twins_vault)
     = \<lparr>found = True, d_newPath = Some ''c.md'', d_fileId = Some 1, d_method = Some ''hash_match''\<rparr>"
    using B0 by simp
  have n3: "(None :: file_id option) = None
          \<or> (\<exists>i. None = Some i \<and> getFileById ''V'' i twins_vault = None)
          \<or> (\<exists>i m. None = Some i \<and> getFileById ''V'' i twins_vault = Some m
                \<and> (current_path m = ''a.md'' \<or> truthy_num (deleted_at m)))"
    by simp
  have f3: "length (filter (\<lambda>r. vault_id r = ''V'' \<and> content_hash r = Some ''sha:same''
                        \<and> deleted_at r = None \<and> current_path r \<noteq> ''a.md'') (files twins_vault))
            \<noteq> 1"
    by code_simp
  have c2: "fst (case find (\<lambda>file. ''a.md'' \<in> set (getAllPreviousPaths ''V'' (rec_file_id file)
                                              (snd (getManifest example_tools ''V'' twins_vault))))
                (fst (getManifest example_tools ''V'' twins_vault)) of
           Some file \<Rightarrow>
             (\<lparr>found = True, d_newPath = Some (rec_path file), d_fileId = Some (rec_file_id file),
               d_method = Some ''path_history''\<rparr>, snd (getManifest example_tools ''V'' twins_vault))
         | None \<Rightarrow>
             (\<lparr>found = False, d_newPath = None, d_fileId = None, d_method = None\<rparr>,
              snd (getManifest example_tools ''V'' twins_vault)))
     = \<lparr>found = True, d_newPath = Some ''b.md'', d_fileId = Some 0, d_method = Some ''path_history''\<rparr>"
    by code_simp
  note C0 = rename_detector_order [where v="''V''" and missing="''a.md''" and fid=None
        and st=twins_vault and T=example_tools and h="''sha:same''",
        THEN conjunct2, THEN conjunct2, THEN mp, OF conjI, OF n3 f3]
  have C: "fst (detectRename example_tools ''V'' ''a.md'' ''sha:same'' None twins_vault)
     = \<lparr>found = True, d_newPath = Some ''b.md'', d_fileId = Some 0, d_method = Some ''path_history''\<rparr>"
    using C0 c2 by (simp only:)
  from A B C show ?thesis by (intro conjI)
qed

text \<open>
  The claim as stated fails: two active records match the hash, and the detector answers
  from the path history.
\<close>

theorem ambiguous_hash_falls_through:
  "length (filter (\<lambda>r. vault_id r = ''V'' \<and> content_hash r = Some ''sha:same''
                        \<and> deleted_at r = None \<and> current_path r \<noteq> ''a.md'') (files twins_vault)) = 2
   \<and> fst (detect_rename_handler example_tools ''V'' ''a.md'' ''sha:same'' None twins_vault)
       = Ok200 \<lparr>found = True, d_newPath = Some ''b.md'', d_fileId = Some 0,
                 d_method = Some ''path_history''\<rparr>"
  by code_simp
section \<open>A Delete that fails\<close>







section \<open>Uploading identical bytes\<close>

text \<open>
  C5, at scenario S5 before the rename: \<open>old.md\<close> holds \<open>hello\<close> at commit 1 and a client
  uploads the same bytes. Without \<open>base_commit\<close> the handler compares the hashes and answers
  without a commit. With \<open>base_commit\<close> equal to the head it calls \<open>commitFile\<close>, and with
  an older \<open>base_commit\<close> it merges and then calls \<open>commitFile\<close>: \<open>git commit\<close> finds
  nothing to commit and fails, the message of the exception (the command line, the
  standard error being empty) does not contain \<open>nothing to commit\<close>, so the branch of
  \<open>commitFile\<close> that would return the current head is not taken and the request ends with
  status 500. The head stays where it was.
\<close>

theorem identical_upload_with_base_commit_fails:
  "getCurrentFile ''V'' ''old.md'' created_vault = Some (Raw ''hello'')
   \<and> getHeadCommit created_vault = Some 1
   \<and> fst (sync_handler example_tools ''V'' ''old.md'' (Some ''hello'') None created_vault)
       = Ok200 \<lparr>sr_success = True, sr_commit = Some 1, sr_hash = ''sha:hello'', sr_file_id = 0,
                sr_merged = False, sr_has_conflicts = False, sr_merged_content = None\<rparr>
   \<and> fst (sync_handler example_tools ''V'' ''old.md'' (Some ''hello'') (Some 1) created_vault)
       = Err500 (GitCommandFailed (''commit -m '' @ in_quotes ''Update old.md'') NothingToCommit)
   \<and> fst (sync_handler example_tools ''V'' ''old.md'' (Some ''hello'') (Some 0) created_vault)
       = Err500 (GitCommandFailed (''commit -m '' @ in_quotes ''Merge old.md'') NothingToCommit)
   \<and> \<not> includes_str
         (error_message
            (GitCommandFailed (''commit -m '' @ in_quotes ''Update old.md'') NothingToCommit))
         ''nothing to commit''
   \<and> fst (commitFile example_tools ''V'' ''old.md'' (Raw ''hello'') ''Update old.md'' created_vault)
       = Inl (GitCommandFailed (''commit -m '' @ in_quotes ''Update old.md'') NothingToCommit)
   \<and> getHeadCommit
         (snd (sync_handler example_tools ''V'' ''old.md'' (Some ''hello'') (Some 1) created_vault))
       = Some 1
   \<and> getHeadCommit
         (snd (sync_handler example_tools ''V'' ''old.md'' (Some ''hello'') (Some 0) created_vault))
       = Some 1"
  by code_simp

section \<open>Soft-deleted identities\<close>

text \<open>
  \<open>restoreFile\<close> and \<open>rebuildFromManifest\<close> of \<open>metadata.ts\<close> are the only functions
  that could clear \<open>deleted_at\<close>, and nothing calls them. Every other write to the
  \<open>files\<close> table either inserts a row under a new identifier or updates the row of an identifier
  obtained from \<open>getFileByPath\<close>, which does not see deleted rows, or of the identifier
  given to \<open>renameFile\<close>, on which \<open>updateFileRecord\<close> never touches \<open>deleted_at\<close>.
  So \<open>stays_deleted f\<close> is kept by every request, and the identifiers put in manifest rows
  and in the results of uploads and Create operations are the ones \<open>ensureFileId\<close> returns.
\<close>

subsection \<open>The deletion is kept by every function\<close>

lemma stays_deleted_cong:
  "files a = files b \<Longrightarrow> next_uuid a = next_uuid b \<Longrightarrow> stays_deleted f a = stays_deleted f b"
  by (simp add: stays_deleted_def soft_deleted_def uuids_fresh_def)

lemma initVaultGit_db [simp]:
  "files (initVaultGit st) = files st" "next_uuid (initVaultGit st) = next_uuid st"
  "now (initVaultGit st) = now st"
  by (simp_all add: initVaultGit_def)

lemma sd_initVaultGit [simp]: "stays_deleted f (initVaultGit st) = stays_deleted f st"
  by (rule stays_deleted_cong) simp_all

lemma git_Inr [simp]: "(git args r = Inr x) = (r = Inr x)"
  by (simp add: git_def split: sum.splits)

lemma git_add_db:
  "git_add T p st = Inr st' \<Longrightarrow> files st' = files st \<and> next_uuid st' = next_uuid st"
  by (auto simp: git_add_def split: if_splits option.splits)

lemma git_commit_m_db:
  "git_commit_m m st = Inr st' \<Longrightarrow> files st' = files st \<and> next_uuid st' = next_uuid st"
  by (auto simp: git_commit_m_def split: if_splits)

lemma git_commit_amend_db:
  "git_commit_amend st = Inr st' \<Longrightarrow> files st' = files st \<and> next_uuid st' = next_uuid st"
  by (auto simp: git_commit_amend_def split: if_splits list.splits)

lemma git_mv_db:
  "git_mv a b st = Inr st' \<Longrightarrow> files st' = files st \<and> next_uuid st' = next_uuid st"
  by (auto simp: git_mv_def split: if_splits option.splits)

lemma sd_git_add: "git_add T p st = Inr st' \<Longrightarrow> stays_deleted f st' = stays_deleted f st"
  by (rule stays_deleted_cong) (simp_all add: git_add_db)

lemma sh_add_db:
  "sh_arg p (\<lambda>w. git_add T w st) = Inr st' \<Longrightarrow> files st' = files st \<and> next_uuid st' = next_uuid st"
  by (auto simp: sh_arg_def split: option.splits dest: git_add_db)

lemma sh_commit_db:
  "sh_arg m (\<lambda>w. git_commit_m w st) = Inr st' \<Longrightarrow> files st' = files st \<and> next_uuid st' = next_uuid st"
  by (auto simp: sh_arg_def split: option.splits dest: git_commit_m_db)

lemma sh_mv_db:
  "sh_arg a (\<lambda>x. sh_arg b (\<lambda>y. git_mv x y st)) = Inr st' \<Longrightarrow>
     files st' = files st \<and> next_uuid st' = next_uuid st"
  by (auto simp: sh_arg_def split: option.splits dest: git_mv_db)

lemma sd_sh_add:
  "sh_arg p (\<lambda>w. git_add T w st) = Inr st' \<Longrightarrow> stays_deleted f st' = stays_deleted f st"
  by (rule stays_deleted_cong) (simp_all add: sh_add_db)

lemma sd_sh_commit:
  "sh_arg m (\<lambda>w. git_commit_m w st) = Inr st' \<Longrightarrow> stays_deleted f st' = stays_deleted f st"
  by (rule stays_deleted_cong) (simp_all add: sh_commit_db)

lemma sd_sh_mv:
  "sh_arg a (\<lambda>x. sh_arg b (\<lambda>y. git_mv x y st)) = Inr st' \<Longrightarrow>
     stays_deleted f st' = stays_deleted f st"
  by (rule stays_deleted_cong) (simp_all add: sh_mv_db)

lemma sd_git_commit_m: "git_commit_m m st = Inr st' \<Longrightarrow> stays_deleted f st' = stays_deleted f st"
  by (rule stays_deleted_cong) (simp_all add: git_commit_m_db)

lemma sd_git_commit_amend:
  "git_commit_amend st = Inr st' \<Longrightarrow> stays_deleted f st' = stays_deleted f st"
  by (rule stays_deleted_cong) (simp_all add: git_commit_amend_db)

lemma sd_git_mv: "git_mv a b st = Inr st' \<Longrightarrow> stays_deleted f st' = stays_deleted f st"
  by (rule stays_deleted_cong) (simp_all add: git_mv_db)

lemma sd_worktree [simp]: "stays_deleted f (st\<lparr>worktree := w\<rparr>) = stays_deleted f st"
  by (rule stays_deleted_cong) simp_all

lemma sd_yjs [simp]: "stays_deleted f (st\<lparr>yjs_documents := w\<rparr>) = stays_deleted f st"
  by (rule stays_deleted_cong) simp_all

lemma sd_now [simp]: "stays_deleted f (st\<lparr>now := t\<rparr>) = stays_deleted f st"
  by (rule stays_deleted_cong) simp_all

lemma sd_add_commit [simp]:
  "stays_deleted f (case git_add T p st of
                      Inl _ \<Rightarrow> st
                    | Inr s \<Rightarrow> (case git_commit_m m s of Inl _ \<Rightarrow> s | Inr s' \<Rightarrow> s'))
     = stays_deleted f st"
  by (auto simp: sd_git_add sd_git_commit_m split: sum.splits)

lemma sd_add_amend [simp]:
  "stays_deleted f (case git_add T p st of
                      Inl _ \<Rightarrow> st
                    | Inr s \<Rightarrow> (case git_commit_amend s of Inl _ \<Rightarrow> s | Inr s' \<Rightarrow> s'))
     = stays_deleted f st"
  by (auto simp: sd_git_add sd_git_commit_amend split: sum.splits)

lemma commitFile_db [simp]:
  "files (snd (commitFile T v p c m st)) = files st \<and>
   next_uuid (snd (commitFile T v p c m st)) = next_uuid st"
proof -
  let ?st1 = "(initVaultGit st)\<lparr>worktree := AList.update p c (worktree (initVaultGit st))\<rparr>"
  have b: "files ?st1 = files st \<and> next_uuid ?st1 = next_uuid st" by simp
  show ?thesis
  proof (cases "sh_arg p (\<lambda>w. git_add T w ?st1)")
    case (Inl e)
    then show ?thesis using b by (simp add: commitFile_def Let_def git_def)
  next
    case (Inr st2)
    then have c: "files st2 = files st \<and> next_uuid st2 = next_uuid st"
      using b sh_add_db by metis
    show ?thesis
    proof (cases "sh_arg (escape_quotes m) (\<lambda>w. git_commit_m w st2)")
      case (Inl e)
      with Inr c show ?thesis by (simp add: commitFile_def Let_def git_def)
    next
      case st3: (Inr st3)
      then have "files st3 = files st \<and> next_uuid st3 = next_uuid st"
        using c sh_commit_db by metis
      with Inr st3 show ?thesis by (simp add: commitFile_def Let_def git_def)
    qed
  qed
qed

lemma sd_commitFile [simp]:
  "stays_deleted f (snd (commitFile T v p c m st)) = stays_deleted f st"
  by (rule stays_deleted_cong) simp_all

lemma deleteFile_db [simp]:
  "files (snd (deleteFile T v p st)) = files st \<and>
   next_uuid (snd (deleteFile T v p st)) = next_uuid st"
proof (cases "map_of (worktree st) p")
  case None
  then show ?thesis by (simp add: deleteFile_def)
next
  case (Some x)
  let ?st1 = "st\<lparr>worktree := AList.delete p (worktree st)\<rparr>"
  show ?thesis
  proof (cases "sh_arg p (\<lambda>w. git_add T w ?st1)")
    case (Inl e)
    with Some show ?thesis by (simp add: deleteFile_def Let_def)
  next
    case (Inr st2)
    then have c: "files st2 = files st \<and> next_uuid st2 = next_uuid st"
      using sh_add_db [of p T ?st1 st2] by simp
    show ?thesis
    proof (cases "sh_arg (''Delete '' @ p) (\<lambda>w. git_commit_m w st2)")
      case (Inl e)
      with Some Inr c show ?thesis by (simp add: deleteFile_def Let_def)
    next
      case st3: (Inr st3)
      then have "files st3 = files st \<and> next_uuid st3 = next_uuid st"
        using c sh_commit_db [of "''Delete '' @ p" st2 st3] by simp
      with Some Inr st3 show ?thesis by (simp add: deleteFile_def Let_def)
    qed
  qed
qed

lemma sd_deleteFile [simp]:
  "stays_deleted f (snd (deleteFile T v p st)) = stays_deleted f st"
  by (rule stays_deleted_cong) simp_all

lemma sd_updateGitManifest [simp]:
  "stays_deleted f (updateGitManifest v st) = stays_deleted f st"
  by (rule stays_deleted_cong) simp_all

lemma sd_recordPathChange [simp]:
  "stays_deleted f (recordPathChange v i a b st) = stays_deleted f st"
  by (rule stays_deleted_cong) (simp_all add: recordPathChange_def)

lemma apply_updates_keeps [simp]:
  "file_id (apply_updates u t r) = file_id r" "deleted_at (apply_updates u t r) = deleted_at r"
  by (simp_all add: apply_updates_def Let_def split: option.splits)

lemma stays_deleted_map:
  assumes "stays_deleted f st"
    and "\<And>r. file_id (g r) = file_id r"
    and "\<And>r. deleted_at r \<noteq> None \<Longrightarrow> deleted_at (g r) \<noteq> None"
  shows "stays_deleted f (st\<lparr>files := map g (files st)\<rparr>)"
proof -
  from assms(1) obtain r0 where r0: "r0 \<in> set (files st)" "file_id r0 = f"
    by (auto simp: stays_deleted_def soft_deleted_def)
  then have "g r0 \<in> set (map g (files st))" "file_id (g r0) = f" using assms(2) by simp_all
  then have 1: "\<exists>r \<in> set (map g (files st)). file_id r = f" by blast
  have 2: "\<forall>r \<in> set (map g (files st)). file_id r = f \<longrightarrow> deleted_at r \<noteq> None"
  proof
    fix r' assume "r' \<in> set (map g (files st))"
    then obtain r where r: "r \<in> set (files st)" "r' = g r" by auto
    show "file_id r' = f \<longrightarrow> deleted_at r' \<noteq> None"
    proof
      assume "file_id r' = f"
      with r assms(2) have "file_id r = f" by simp
      with r(1) assms(1) have "deleted_at r \<noteq> None"
        by (simp add: stays_deleted_def soft_deleted_def)
      with r(2) assms(3) show "deleted_at r' \<noteq> None" by simp
    qed
  qed
  have 3: "\<forall>r \<in> set (map g (files st)). file_id r < next_uuid st"
    using assms(1,2) by (auto simp: stays_deleted_def uuids_fresh_def)
  from 1 2 3 show ?thesis by (simp add: stays_deleted_def soft_deleted_def uuids_fresh_def)
qed

lemma sd_updateFileRecord [simp]:
  assumes "stays_deleted f st"
  shows "stays_deleted f (snd (updateFileRecord v i u st))"
proof -
  have "stays_deleted f (st\<lparr>files := map (\<lambda>r. if file_id r = i
                                             then apply_updates u (now st) r else r) (files st)\<rparr>)"
    using assms by (rule stays_deleted_map) simp_all
  then show ?thesis by (simp add: updateFileRecord_def Let_def)
qed

lemma sd_softDeleteFile [simp]:
  assumes "stays_deleted f st"
  shows "stays_deleted f (snd (softDeleteFile v i st))"
proof -
  have "stays_deleted f (st\<lparr>files := map (\<lambda>r. if file_id r = i
                                      then r\<lparr>deleted_at := Some (now st), updated_at := now st\<rparr>
                                      else r) (files st)\<rparr>)"
    using assms by (rule stays_deleted_map) simp_all
  then show ?thesis by (simp add: softDeleteFile_def Let_def)
qed

lemma sd_createFileRecord [simp]:
  "stays_deleted f st \<Longrightarrow> stays_deleted f (snd (createFileRecord v p h c st))"
  by (auto simp: createFileRecord_def Let_def stays_deleted_def soft_deleted_def uuids_fresh_def
        less_Suc_eq)

lemma sd_ensureFileId [simp]:
  "stays_deleted f st \<Longrightarrow> stays_deleted f (snd (ensureFileId v p h c st))"
  by (simp add: ensureFileId_def case_prod_beta split: option.splits)

lemma ensureFileId_not_deleted:
  assumes "stays_deleted f st"
  shows "fst (ensureFileId v p h c st) \<noteq> f"
proof (cases "getFileByPath v p st")
  case None
  from assms have "f < next_uuid st"
    by (auto simp: stays_deleted_def soft_deleted_def uuids_fresh_def)
  with None show ?thesis by (simp add: ensureFileId_def createFileRecord_def Let_def)
next
  case (Some e)
  then have "e \<in> set (files st)" "deleted_at e = None"
    by (auto simp: getFileByPath_def find_Some_iff)
  with assms have "file_id e \<noteq> f" by (auto simp: stays_deleted_def soft_deleted_def)
  with Some show ?thesis by (simp add: ensureFileId_def)
qed

lemma sd_getFileRecord [simp]:
  "stays_deleted f st \<Longrightarrow> stays_deleted f (snd (getFileRecord T v p st))"
  by (simp add: getFileRecord_def Let_def case_prod_beta split: option.splits)

lemma getFileRecord_id:
  assumes "fst (getFileRecord T v p st) = Some r"
  shows "\<exists>h c. rec_file_id r = fst (ensureFileId v p h c st)"
proof (cases "map_of (worktree st) p")
  case None
  with assms show ?thesis by (simp add: getFileRecord_def)
next
  case (Some content)
  let ?c = "(case git_log_path p st of Inl _ \<Rightarrow> getHeadCommit st | Inr c \<Rightarrow> map_option cid c)"
  from assms Some
  have "rec_file_id r = fst (ensureFileId v p (Some (sha256 T content)) ?c st)"
    by (auto simp: getFileRecord_def Let_def case_prod_beta)
  then show ?thesis by blast
qed

lemma getFileRecord_not_deleted:
  assumes "stays_deleted f st" and "fst (getFileRecord T v p st) = Some r"
  shows "rec_file_id r \<noteq> f"
proof -
  from assms(2) obtain h c where "rec_file_id r = fst (ensureFileId v p h c st)"
    using getFileRecord_id by blast
  with assms(1) show ?thesis by (simp add: ensureFileId_not_deleted)
qed

lemma sd_bootstrap_loop [simp]:
  "stays_deleted f st \<Longrightarrow> stays_deleted f (bootstrap_loop T v fs st)"
  by (induction fs arbitrary: st) (simp_all add: Let_def split: option.splits)

lemma sd_bootstrap [simp]:
  "stays_deleted f st \<Longrightarrow> stays_deleted f (bootstrapVaultMetadata T v st)"
  by (simp add: bootstrapVaultMetadata_def Let_def)

lemma sd_manifest_loop [simp]:
  "stays_deleted f st \<Longrightarrow> stays_deleted f (snd (manifest_loop T v hc fs st))"
  by (induction fs arbitrary: st) (simp_all add: Let_def case_prod_beta split: option.splits)

lemma manifest_loop_not_deleted:
  "stays_deleted f st \<Longrightarrow> \<forall>row \<in> set (fst (manifest_loop T v hc fs st)). rec_file_id row \<noteq> f"
proof (induction fs arbitrary: st)
  case Nil
  then show ?case by simp
next
  case (Cons p fs)
  show ?case
  proof (cases "map_of (worktree st) p")
    case None
    then show ?thesis using Cons by simp
  next
    case (Some content)
    let ?e = "ensureFileId v p (Some (sha256 T content))
                (case git_log_path p st of Inl _ \<Rightarrow> Some hc | Inr c \<Rightarrow> map_option cid c) st"
    have a: "fst ?e \<noteq> f" using Cons.prems by (rule ensureFileId_not_deleted)
    have b: "stays_deleted f (snd ?e)" using Cons.prems by simp
    have "\<forall>row \<in> set (fst (manifest_loop T v hc fs (snd ?e))). rec_file_id row \<noteq> f"
      using b by (rule Cons.IH)
    with a Some show ?thesis by (simp add: Let_def case_prod_beta)
  qed
qed

lemma sd_getManifest [simp]:
  "stays_deleted f st \<Longrightarrow> stays_deleted f (snd (getManifest T v st))"
  by (simp add: getManifest_def Let_def split: option.splits sum.splits)

lemma getManifest_not_deleted:
  assumes "stays_deleted f st"
  shows "\<forall>row \<in> set (fst (getManifest T v st)). rec_file_id row \<noteq> f"
proof (cases "getHeadCommit (initVaultGit st)")
  case None
  then show ?thesis by (simp add: getManifest_def)
next
  case (Some hc)
  show ?thesis
  proof (cases "git_ls_files (initVaultGit st)")
    case (Inl e)
    with Some show ?thesis by (simp add: getManifest_def)
  next
    case (Inr out)
    let ?st0 = "initVaultGit st"
    let ?fs = "filter tracked_filter (output_lines out)"
    let ?st1 = "(if ?fs \<noteq> [] \<and> \<not> isVaultBootstrapped v ?st0
                 then bootstrapVaultMetadata T v ?st0 else ?st0)"
    have "stays_deleted f ?st1" using assms by simp
    then have "\<forall>row \<in> set (fst (manifest_loop T v hc ?fs ?st1)). rec_file_id row \<noteq> f"
      by (rule manifest_loop_not_deleted)
    with Some Inr show ?thesis by (simp add: getManifest_def Let_def)
  qed
qed

subsection \<open>Requests keep the deletion\<close>

lemma sd_getChangesSince [simp]:
  "stays_deleted f st \<Longrightarrow> stays_deleted f (snd (getChangesSince T v since st))"
  by (simp add: getChangesSince_def Let_def case_prod_beta split: option.splits sum.splits)

lemma sd_detectRename [simp]:
  "stays_deleted f st \<Longrightarrow> stays_deleted f (snd (detectRename T v p h i st))"
  by (simp add: detectRename_def Let_def case_prod_beta split: option.splits)

lemma sd_renameFile [simp]:
  "stays_deleted f st \<Longrightarrow> stays_deleted f (snd (renameFile T v i a b c st))"
  by (auto simp: renameFile_def Let_def sd_sh_mv sd_sh_add sd_sh_commit
        split: option.splits sum.splits)

lemma sd_commit_and_reply [simp]:
  "stays_deleted f st \<Longrightarrow> stays_deleted f (snd (commit_and_reply T v p c m st))"
  by (simp add: commit_and_reply_def case_prod_beta split: sum.splits)

lemma sd_merge_and_reply [simp]:
  "stays_deleted f st \<Longrightarrow> stays_deleted f (snd (merge_and_reply T v p hc b c s st))"
  by (simp add: merge_and_reply_def Let_def case_prod_beta split: sum.splits)

lemma sd_sync_handler [simp]:
  "stays_deleted f st \<Longrightarrow> stays_deleted f (snd (sync_handler T v p c b st))"
  by (simp add: sync_handler_def Let_def case_prod_beta split: option.splits)

lemma sd_processCreate [simp]:
  "stays_deleted f st \<Longrightarrow> stays_deleted f (snd (processCreate T v op i st))"
  by (simp add: processCreate_def Let_def case_prod_beta split: option.splits sum.splits)

lemma sd_processModify [simp]:
  "stays_deleted f st \<Longrightarrow> stays_deleted f (snd (processModify T v op i st))"
  by (simp add: processModify_def Let_def case_prod_beta split: option.splits sum.splits)

lemma sd_processRename [simp]:
  "stays_deleted f st \<Longrightarrow> stays_deleted f (snd (processRename T v op i st))"
  by (simp add: processRename_def Let_def case_prod_beta split: option.splits)

lemma sd_processDelete [simp]:
  "stays_deleted f st \<Longrightarrow> stays_deleted f (snd (processDelete T v op i st))"
  by (simp add: processDelete_def Let_def case_prod_beta split: option.splits)

lemma sd_processOperation [simp]:
  "stays_deleted f st \<Longrightarrow> stays_deleted f (snd (processOperation T v op i st))"
  by (simp add: processOperation_def Let_def case_prod_beta split: sum.splits)

lemma sd_v2_loop [simp]:
  "stays_deleted f st \<Longrightarrow> stays_deleted f (snd (v2_loop T v a sc ops i rs st))"
  by (induction ops arbitrary: a i rs st) (simp_all add: Let_def case_prod_beta)

lemma sd_handlers [simp]:
  "stays_deleted f st \<Longrightarrow> stays_deleted f (snd (manifest_handler T v st))"
  "stays_deleted f st \<Longrightarrow> stays_deleted f (snd (status_handler T v since st))"
  "stays_deleted f st \<Longrightarrow> stays_deleted f (snd (file_handler T v p st))"
  "stays_deleted f st \<Longrightarrow> stays_deleted f (snd (file_by_id_handler T v j st))"
  "stays_deleted f st \<Longrightarrow> stays_deleted f (snd (sync_v2_handler T v ops at st))"
  "stays_deleted f st \<Longrightarrow> stays_deleted f (snd (delete_handler T v p st))"
  "stays_deleted f st \<Longrightarrow> stays_deleted f (snd (detect_rename_handler T v p h jo st))"
  "stays_deleted f st \<Longrightarrow> stays_deleted f (snd (rename_handler T v jo a b c st))"
  "stays_deleted f st \<Longrightarrow> stays_deleted f (snd (handleYjsUpdate T v j u st))"
  by (simp_all add: manifest_handler_def status_handler_def file_handler_def
        file_by_id_handler_def sync_v2_handler_def delete_handler_def detect_rename_handler_def
        rename_handler_def handleYjsUpdate_def Let_def case_prod_beta
        split: option.splits sum.splits)

lemma sd_serve: "stays_deleted f st \<Longrightarrow> stays_deleted f (serve T v req st)"
  by (cases req) simp_all

lemma sd_run: "stays_deleted f st \<Longrightarrow> stays_deleted f (run T v reqs st)"
  unfolding run_def by (induction reqs arbitrary: st) (simp_all add: sd_serve)

subsection \<open>Identifiers handed out\<close>

lemma soft_deleted_getFileById:
  assumes "soft_deleted f st"
  shows "getFileById v f st \<noteq> None \<and> (\<forall>r. getFileById v f st = Some r \<longrightarrow> deleted_at r \<noteq> None)"
proof -
  from assms obtain r0 where "r0 \<in> set (files st)" "file_id r0 = f"
    by (auto simp: soft_deleted_def)
  then have a: "getFileById v f st \<noteq> None"
    by (auto simp: getFileById_def find_None_iff)
  have "\<forall>r. getFileById v f st = Some r \<longrightarrow> deleted_at r \<noteq> None"
    using assms by (auto simp: getFileById_def find_Some_iff soft_deleted_def)
  with a show ?thesis by simp
qed

lemma soft_deleted_getFileByPath:
  "soft_deleted f st \<Longrightarrow> getFileByPath v p st = Some r \<Longrightarrow> file_id r \<noteq> f"
  by (auto simp: getFileByPath_def find_Some_iff soft_deleted_def)

lemma manifest_handler_not_deleted:
  assumes "stays_deleted f st" and "manifest_handler T v st = (Ok200 (rows, h), st')"
  shows "\<forall>row \<in> set rows. rec_file_id row \<noteq> f"
proof -
  from assms(2) have "rows = fst (getManifest T v (initVaultGit st))"
    by (auto simp: manifest_handler_def Let_def case_prod_beta split: if_splits)
  moreover have "stays_deleted f (initVaultGit st)" using assms(1) by simp
  ultimately show ?thesis using getManifest_not_deleted by blast
qed

lemma commit_and_reply_not_deleted:
  assumes "stays_deleted f st" and "commit_and_reply T v p c m st = (Ok200 r, st')"
  shows "sr_file_id r \<noteq> f"
proof -
  from assms(2) obtain h where "sr_file_id r = fst (ensureFileId v p h
      (case fst (commitFile T v p c m st) of Inr k \<Rightarrow> k) (snd (commitFile T v p c m st)))"
    by (auto simp: commit_and_reply_def Let_def case_prod_beta split: sum.splits; blast)
  moreover have "stays_deleted f (snd (commitFile T v p c m st))" using assms(1) by simp
  ultimately show ?thesis by (simp add: ensureFileId_not_deleted)
qed

lemma merge_and_reply_not_deleted:
  assumes "stays_deleted f st" and "merge_and_reply T v p hc b c s st = (Ok200 r, st')"
  shows "sr_file_id r \<noteq> f"
proof -
  from assms(2) obtain h k m msg where
    d: "sr_file_id r = fst (ensureFileId v p h k st) \<or>
        sr_file_id r = fst (ensureFileId v p h k (snd (commitFile T v p m msg st)))"
    by (auto simp: merge_and_reply_def Let_def case_prod_beta split: sum.splits if_splits; blast)
  have a: "fst (ensureFileId v p h k st) \<noteq> f"
    using assms(1) by (rule ensureFileId_not_deleted)
  have "stays_deleted f (snd (commitFile T v p m msg st))" using assms(1) by simp
  then have b: "fst (ensureFileId v p h k (snd (commitFile T v p m msg st))) \<noteq> f"
    by (rule ensureFileId_not_deleted)
  from d show ?thesis
  proof
    assume "sr_file_id r = fst (ensureFileId v p h k st)"
    with a show ?thesis by simp
  next
    assume "sr_file_id r = fst (ensureFileId v p h k (snd (commitFile T v p m msg st)))"
    with b show ?thesis by simp
  qed
qed

lemma sync_handler_not_deleted:
  assumes "stays_deleted f st" and "sync_handler T v p c b st = (Ok200 r, st')"
  shows "sr_file_id r \<noteq> f"
proof -
  let ?st0 = "initVaultGit st"
  have s0: "stays_deleted f ?st0" using assms(1) by simp
  from assms(2) consider
      (commit) m content where "commit_and_reply T v p content m ?st0 = (Ok200 r, st')"
    | (merge) hc base content server where
        "merge_and_reply T v p hc base content server ?st0 = (Ok200 r, st')"
    | (same) h k where
        "sr_file_id r = fst (ensureFileId v p h k (snd (getFileRecord T v p ?st0)))"
    by (auto simp: sync_handler_def Let_def case_prod_beta split: option.splits if_splits; blast)
  then show ?thesis
  proof cases
    case commit
    with s0 show ?thesis by (rule commit_and_reply_not_deleted)
  next
    case merge
    with s0 show ?thesis by (rule merge_and_reply_not_deleted)
  next
    case same
    moreover have "stays_deleted f (snd (getFileRecord T v p ?st0))" using s0 by simp
    ultimately show ?thesis by (simp add: ensureFileId_not_deleted)
  qed
qed

lemma processCreate_id:
  assumes "processCreate T v op i st = (Inr r, st')" and "success r"
  shows "\<exists>h k. res_file_id r = Some (fst (ensureFileId v (op_path op) h k
                   (snd (commitFile T v (op_path op)
                      (Raw (case op_content op of None \<Rightarrow> [] | Some b \<Rightarrow> b))
                      (''Add '' @ op_path op) st))))"
  using assms
  by (auto simp: processCreate_def Let_def case_prod_beta succeeded_def failed_def truthy_str_def
        split: option.splits sum.splits if_splits; blast)

lemma processCreate_throws_or_returns:
  "processOperation T v op i st = (r, st') \<Longrightarrow> op_type op = ''create'' \<Longrightarrow> success r \<Longrightarrow>
     \<exists>s. processCreate T v op i (initVaultGit st) = (Inr r, s)"
  by (auto simp: processOperation_def Let_def failed_def split: sum.splits prod.splits)

lemma create_not_deleted:
  assumes "stays_deleted f st" and "op_type op = ''create''"
    and "processOperation T v op i st = (r, st')"
  shows "res_file_id r \<noteq> Some f"
proof (cases "success r")
  case False
  with assms(2,3) have "res_file_id r = None"
    by (auto simp: processOperation_def processCreate_def Let_def failed_def succeeded_def
          case_prod_beta split: sum.splits prod.splits option.splits if_splits)
  then show ?thesis by simp
next
  case True
  let ?st0 = "initVaultGit st"
  from assms(2,3) True obtain s where "processCreate T v op i ?st0 = (Inr r, s)"
    using processCreate_throws_or_returns by blast
  from processCreate_id [OF this True] obtain h k where
    e: "res_file_id r = Some (fst (ensureFileId v (op_path op) h k
                   (snd (commitFile T v (op_path op)
                      (Raw (case op_content op of None \<Rightarrow> [] | Some b \<Rightarrow> b))
                      (''Add '' @ op_path op) ?st0))))" by blast
  have "stays_deleted f (snd (commitFile T v (op_path op)
                      (Raw (case op_content op of None \<Rightarrow> [] | Some b \<Rightarrow> b))
                      (''Add '' @ op_path op) ?st0))" using assms(1) by simp
  with e show ?thesis by (simp add: ensureFileId_not_deleted)
qed

lemma ensureFileId_new:
  "getFileByPath v p st = None \<Longrightarrow> fst (ensureFileId v p h c st) = next_uuid st"
  by (simp add: ensureFileId_def createFileRecord_def Let_def)

lemma getFileByPath_cong: "files a = files b \<Longrightarrow> getFileByPath v p a = getFileByPath v p b"
  by (simp add: getFileByPath_def)

lemma create_fresh:
  assumes "uuids_fresh st" and "op_type op = ''create''"
    and "processOperation T v op i st = (r, st')" and "success r"
    and "getFileByPath v (op_path op) st = None"
  shows "res_file_id r = Some (next_uuid st) \<and> (\<forall>x \<in> set (files st). file_id x \<noteq> next_uuid st)"
proof -
  let ?st0 = "initVaultGit st"
  let ?st1 = "snd (commitFile T v (op_path op)
                      (Raw (case op_content op of None \<Rightarrow> [] | Some b \<Rightarrow> b))
                      (''Add '' @ op_path op) ?st0)"
  from assms(2,3,4) obtain s where "processCreate T v op i ?st0 = (Inr r, s)"
    using processCreate_throws_or_returns by blast
  from processCreate_id [OF this assms(4)] obtain h k where
    e: "res_file_id r = Some (fst (ensureFileId v (op_path op) h k ?st1))" by blast
  have "getFileByPath v (op_path op) ?st1 = getFileByPath v (op_path op) st"
    by (rule getFileByPath_cong) simp
  with assms(5) have "fst (ensureFileId v (op_path op) h k ?st1) = next_uuid ?st1"
    by (simp add: ensureFileId_new)
  with e have "res_file_id r = Some (next_uuid st)" by simp
  moreover from assms(1) have "\<forall>x \<in> set (files st). file_id x \<noteq> next_uuid st"
    by (auto simp: uuids_fresh_def)
  ultimately show ?thesis by simp
qed

text \<open>
  What holds for every sequence of requests (the HTTP requests of the vault, and
  \<open>yjs-update\<close> frames): once \<open>f\<close> is soft-deleted, its record stays there and
  stays deleted, no path lookup returns it, and no row of \<open>GET /manifest\<close>, no reply of
  \<open>POST /sync\<close> and no result of a Create operation carries it.
\<close>

lemma soft_deleted_stays_deleted:
  assumes "soft_deleted f st0" and "uuids_fresh st0"
  shows "soft_deleted f (run T v reqs st0) \<and> uuids_fresh (run T v reqs st0)
    \<and> getFileById v f (run T v reqs st0) \<noteq> None
    \<and> (\<forall>r. getFileById v f (run T v reqs st0) = Some r \<longrightarrow> deleted_at r \<noteq> None)
    \<and> (\<forall>p r. getFileByPath v p (run T v reqs st0) = Some r \<longrightarrow> file_id r \<noteq> f)
    \<and> (\<forall>rows h st'. manifest_handler T v (run T v reqs st0) = (Ok200 (rows, h), st') \<longrightarrow>
          (\<forall>row \<in> set rows. rec_file_id row \<noteq> f))
    \<and> (\<forall>p c b r st'. sync_handler T v p c b (run T v reqs st0) = (Ok200 r, st') \<longrightarrow>
          sr_file_id r \<noteq> f)
    \<and> (\<forall>op i r st'. op_type op = ''create''
          \<and> processOperation T v op i (run T v reqs st0) = (r, st') \<longrightarrow> res_file_id r \<noteq> Some f)"
proof -
  let ?st = "run T v reqs st0"
  from assms have "stays_deleted f st0" by (simp add: stays_deleted_def)
  then have sd: "stays_deleted f ?st" by (rule sd_run)
  then have a: "soft_deleted f ?st" and b: "uuids_fresh ?st" by (simp_all add: stays_deleted_def)
  note c = soft_deleted_getFileById [OF a, of v]
  have d: "\<forall>p r. getFileByPath v p ?st = Some r \<longrightarrow> file_id r \<noteq> f"
    using soft_deleted_getFileByPath [OF a] by blast
  have e: "\<forall>rows h st'. manifest_handler T v ?st = (Ok200 (rows, h), st') \<longrightarrow>
          (\<forall>row \<in> set rows. rec_file_id row \<noteq> f)"
    using manifest_handler_not_deleted [OF sd] by blast
  have g: "\<forall>p c b r st'. sync_handler T v p c b ?st = (Ok200 r, st') \<longrightarrow> sr_file_id r \<noteq> f"
    using sync_handler_not_deleted [OF sd] by blast
  have h: "\<forall>op i r st'. op_type op = ''create''
          \<and> processOperation T v op i ?st = (r, st') \<longrightarrow> res_file_id r \<noteq> Some f"
    using create_not_deleted [OF sd] by blast
  from a b c d e g h show ?thesis by (intro conjI) blast+
qed

text \<open>
  C7, at the vault in which \<open>old.md\<close> (\<open>file_id\<close> 0) was deleted. A \<open>yjs-update\<close> frame
  for \<open>file_id\<close> 0 writes \<open>old.md\<close> again, and the manifest gives this file the new
  \<open>file_id\<close> 1. The Delete operation for \<open>file_id\<close> 0, sent once more, is accepted
  (\<open>processDelete\<close> does not look at \<open>deleted_at\<close>, as \<open>processModify\<close> does): it removes
  the file at \<open>old.md\<close> and leaves the record of \<open>file_id\<close> 1 active. The Create operation
  at \<open>old.md\<close> that follows succeeds and returns \<open>file_id\<close> 1, which the table already
  had, and adds no record; the next identifier of the generator, 2, is not used. The same
  holds for a creation through \<open>POST /sync\<close>. The record of \<open>file_id\<close> 0 stays deleted
  throughout.
\<close>

theorem creation_after_stale_delete_reuses_id:
  "map (\<lambda>r. (file_id r, current_path r, deleted_at r)) (files deleted_vault)
     = [(0, ''old.md'', Some 100)]
   \<and> fst (sync_v2_handler example_tools ''V'' [delete_op] None
           (run example_tools ''V'' [YjsUpdate 0 ''new text'', GetManifest] deleted_vault))
     = V2Ok \<lparr>v2_success = True,
              results = [\<lparr>index = 0, success = True, res_file_id = Some 0, res_commit = Some 4,
                           res_hash = None, error = None, merged = Some False,
                           has_conflicts = Some False, merged_content = None\<rparr>],
              head_commit = Some 4\<rparr>
   \<and> map (\<lambda>r. (file_id r, current_path r, deleted_at r))
         (files (run example_tools ''V'' stale_requests deleted_vault))
     = [(0, ''old.md'', Some 200), (1, ''old.md'', None)]
   \<and> getCurrentFile ''V'' ''old.md'' (run example_tools ''V'' stale_requests deleted_vault) = None
   \<and> next_uuid (run example_tools ''V'' stale_requests deleted_vault) = 2
   \<and> fst (processOperation example_tools ''V'' create_again 0
           (run example_tools ''V'' stale_requests deleted_vault))
     = \<lparr>index = 0, success = True, res_file_id = Some 1, res_commit = Some 5,
        res_hash = Some ''sha:again'', error = None, merged = Some False,
        has_conflicts = Some False, merged_content = None\<rparr>
   \<and> map (\<lambda>r. (file_id r, current_path r, deleted_at r))
         (files (snd (processOperation example_tools ''V'' create_again 0
                        (run example_tools ''V'' stale_requests deleted_vault))))
     = [(0, ''old.md'', Some 200), (1, ''old.md'', None)]
   \<and> getCurrentFile ''V'' ''old.md''
         (snd (processOperation example_tools ''V'' create_again 0
                 (run example_tools ''V'' stale_requests deleted_vault)))
     = Some (Raw ''again'')
   \<and> fst (sync_handler example_tools ''V'' ''old.md'' (Some ''again'') None
           (run example_tools ''V'' stale_requests deleted_vault))
     = Ok200 \<lparr>sr_success = True, sr_commit = Some 5, sr_hash = ''sha:again'', sr_file_id = 1,
              sr_merged = False, sr_has_conflicts = False, sr_merged_content = None\<rparr>"
  by code_simp
end
